theory Spec2Isabelle
  imports Complex_Main
begin

section \<open>Conventions of the embedding\<close>

text \<open>
  The pipeline is a sequence of SQL queries and data-frame steps over tables. A table is
  a list of records, a nullable column is an \<open>option\<close> (\<open>None\<close> is SQL NULL and the
  data frame's NaN), a DOUBLE column is a \<open>real\<close> (exact arithmetic: rounding is not
  modelled), a BIGINT or INTEGER column is an \<open>int\<close>. The key columns
  \<open>contract_id\<close>, \<open>year\<close> and \<open>county_fips\<close> are taken non-null.
  \<open>GROUP BY\<close> yields one row per distinct key; the order of the groups, which SQL
  leaves open, is the order of \<open>remdups\<close>.
\<close>

subsection \<open>SQL helpers\<close>

definition left_join :: "('a \<Rightarrow> 'b \<Rightarrow> bool) \<Rightarrow> 'a list \<Rightarrow> 'b list \<Rightarrow> ('a \<times> 'b option) list" where
  "left_join on_cond xs ys =
     concat (map (\<lambda>x. if filter (on_cond x) ys = [] then [(x, None)]
                      else map (\<lambda>y. (x, Some y)) (filter (on_cond x) ys)) xs)"

fun sql_max :: "('a::linorder) list \<Rightarrow> 'a option" where
  "sql_max [] = None"
| "sql_max (x # xs) = (case sql_max xs of None \<Rightarrow> Some x | Some m \<Rightarrow> Some (max x m))"

section \<open>Exposure weighting engine (05\_build\_weights.py)\<close>

record enrollment_record =
  contract_id :: string
  year :: int
  county_fips :: string
  enrollment :: "int option"

record contract_county_weight =
  w_contract_id :: string
  w_year :: int
  w_county_fips :: string
  w_enrollment :: int
  contract_year_total_enrollment :: int
  w_enroll :: real

text \<open>\<open>WHERE enrollment IS NOT NULL AND enrollment > 0\<close>\<close>

definition retained :: "enrollment_record \<Rightarrow> bool" where
  "retained r = (case enrollment r of None \<Rightarrow> False | Some e \<Rightarrow> e > 0)"

definition enrollment_value :: "enrollment_record \<Rightarrow> int" where
  "enrollment_value r = (case enrollment r of None \<Rightarrow> 0 | Some e \<Rightarrow> e)"

text \<open>\<open>SUM(enrollment) OVER (PARTITION BY contract_id, year)\<close>, over the rows the
  \<open>WHERE\<close> clause kept.\<close>

definition partition_total :: "enrollment_record list \<Rightarrow> string \<Rightarrow> int \<Rightarrow> int" where
  "partition_total rows c y =
     sum_list (map enrollment_value (filter (\<lambda>r. contract_id r = c \<and> year r = y) rows))"

definition weight_row :: "enrollment_record list \<Rightarrow> enrollment_record \<Rightarrow> contract_county_weight" where
  "weight_row rows r =
     \<lparr> w_contract_id = contract_id r,
       w_year = year r,
       w_county_fips = county_fips r,
       w_enrollment = enrollment_value r,
       contract_year_total_enrollment = partition_total rows (contract_id r) (year r),
       w_enroll = real_of_int (enrollment_value r) * 1
                    / real_of_int (partition_total rows (contract_id r) (year r)) \<rparr>"

definition contract_county_weights :: "enrollment_record list \<Rightarrow> contract_county_weight list" where
  "contract_county_weights enrollment_union =
     (let rows = filter retained enrollment_union in map (weight_row rows) rows)"

text \<open>The rows of one contract-year in the weight table, and the QC query's
  \<open>SUM(w_enroll) ... GROUP BY contract_id, year\<close>.\<close>

definition weight_group :: "contract_county_weight list \<Rightarrow> string \<Rightarrow> int \<Rightarrow> contract_county_weight list" where
  "weight_group ws c y = filter (\<lambda>w. w_contract_id w = c \<and> w_year w = y) ws"

definition wsum :: "contract_county_weight list \<Rightarrow> string \<Rightarrow> int \<Rightarrow> real" where
  "wsum ws c y = sum_list (map w_enroll (weight_group ws c y))"

section \<open>Lagged attribute joiner: poverty (07\_build\_poverty\_exposure.py)\<close>

record county_poverty =
  p_year :: int
  p_county_fips :: string
  pov_rate_all :: "real option"

text \<open>A row of the CTE \<open>joined\<close>: the weight row's columns and the attribute value of
  the county row it was joined to (NULL when no county row matched).\<close>

record joined_row =
  j_contract_id :: string
  j_contract_year :: int
  j_contract_year_total_enrollment :: int
  j_w_enroll :: real
  j_value :: "real option"

text \<open>A row of an exposure table; \<open>exposure\<close> is the column \<open>poverty_exposure\<close> of
  \<open>contract_year_poverty_exposure_clean\<close> and \<open>rural_exposure\<close> of
  \<open>contract_year_rural_exposure\<close>.\<close>

record contract_year_exposure =
  e_contract_id :: string
  e_contract_year :: int
  total_enrollment :: "int option"
  exposure :: "real option"
  coverage_weight_share :: real
  out_of_scope_geography :: int

definition joined_of :: "('b \<Rightarrow> real option) \<Rightarrow> contract_county_weight \<times> 'b option \<Rightarrow> joined_row" where
  "joined_of val wp =
     \<lparr> j_contract_id = w_contract_id (fst wp),
       j_contract_year = w_year (fst wp),
       j_contract_year_total_enrollment = contract_year_total_enrollment (fst wp),
       j_w_enroll = w_enroll (fst wp),
       j_value = (case snd wp of None \<Rightarrow> None | Some p \<Rightarrow> val p) \<rparr>"

text \<open>\<open>LEFT JOIN county_poverty p ON p.county_fips = w.county_fips AND p.year = w.year - 1\<close>\<close>

definition poverty_on :: "contract_county_weight \<Rightarrow> county_poverty \<Rightarrow> bool" where
  "poverty_on w p = (p_county_fips p = w_county_fips w \<and> p_year p = w_year w - 1)"

definition poverty_joined :: "contract_county_weight list \<Rightarrow> county_poverty list \<Rightarrow> joined_row list" where
  "poverty_joined ws pov = map (joined_of pov_rate_all) (left_join poverty_on ws pov)"

text \<open>The CTE \<open>agg\<close> and the final \<open>SELECT\<close>, the same text in both exposure scripts.\<close>

definition j_key :: "joined_row \<Rightarrow> string \<times> int" where
  "j_key j = (j_contract_id j, j_contract_year j)"

definition num :: "joined_row list \<Rightarrow> real" where
  "num g = sum_list (map (\<lambda>j. case j_value j of Some v \<Rightarrow> j_w_enroll j * v | None \<Rightarrow> 0) g)"

definition denom :: "joined_row list \<Rightarrow> real" where
  "denom g = sum_list (map (\<lambda>j. case j_value j of Some v \<Rightarrow> j_w_enroll j | None \<Rightarrow> 0) g)"

definition exposure_row :: "joined_row list \<Rightarrow> string \<times> int \<Rightarrow> contract_year_exposure" where
  "exposure_row js k =
     (let g = filter (\<lambda>j. j_key j = k) js in
      \<lparr> e_contract_id = fst k,
        e_contract_year = snd k,
        total_enrollment = sql_max (map j_contract_year_total_enrollment g),
        exposure = (if denom g > 0 then Some (num g / denom g) else None),
        coverage_weight_share = denom g,
        out_of_scope_geography = (if denom g = 0 then 1 else 0) \<rparr>)"

definition renormalized_exposure :: "joined_row list \<Rightarrow> contract_year_exposure list" where
  "renormalized_exposure js = map (exposure_row js) (remdups (map j_key js))"

definition contract_year_poverty_exposure_clean ::
  "contract_county_weight list \<Rightarrow> county_poverty list \<Rightarrow> contract_year_exposure list" where
  "contract_year_poverty_exposure_clean ws pov = renormalized_exposure (poverty_joined ws pov)"

section \<open>Lagged attribute joiner: rurality (11\_build\_rural\_exposure.py)\<close>

record county_rucc =
  r_county_fips :: string
  rural_indicator :: "int option"

text \<open>\<open>LEFT JOIN county_rucc_2023 r ON r.county_fips = w.county_fips\<close>: no year in the
  condition.\<close>

definition rural_on :: "contract_county_weight \<Rightarrow> county_rucc \<Rightarrow> bool" where
  "rural_on w r = (r_county_fips r = w_county_fips w)"

definition rural_joined :: "contract_county_weight list \<Rightarrow> county_rucc list \<Rightarrow> joined_row list" where
  "rural_joined ws rucc =
     map (joined_of (\<lambda>r. map_option real_of_int (rural_indicator r))) (left_join rural_on ws rucc)"

definition contract_year_rural_exposure ::
  "contract_county_weight list \<Rightarrow> county_rucc list \<Rightarrow> contract_year_exposure list" where
  "contract_year_rural_exposure ws rucc = renormalized_exposure (rural_joined ws rucc)"

text \<open>The contract of the joiner in the specification's words: the attribute of a
  county in a year, the matched weight of a contract-year and its weighted sum.\<close>

definition poverty_value :: "county_poverty list \<Rightarrow> int \<Rightarrow> string \<Rightarrow> real option" where
  "poverty_value pov yr fips =
     (case find (\<lambda>p. p_county_fips p = fips \<and> p_year p = yr) pov of
        None \<Rightarrow> None | Some p \<Rightarrow> pov_rate_all p)"

definition matched_weight :: "contract_county_weight list \<Rightarrow> county_poverty list \<Rightarrow> string \<Rightarrow> int \<Rightarrow> real" where
  "matched_weight ws pov c y =
     sum_list (map (\<lambda>w. case poverty_value pov (y - 1) (w_county_fips w) of
                           Some v \<Rightarrow> w_enroll w | None \<Rightarrow> 0) (weight_group ws c y))"

definition matched_sum :: "contract_county_weight list \<Rightarrow> county_poverty list \<Rightarrow> string \<Rightarrow> int \<Rightarrow> real" where
  "matched_sum ws pov c y =
     sum_list (map (\<lambda>w. case poverty_value pov (y - 1) (w_county_fips w) of
                           Some v \<Rightarrow> w_enroll w * v | None \<Rightarrow> 0) (weight_group ws c y))"

subsection \<open>The end-to-end scenario of the specification\<close>

definition example_enrollment :: "enrollment_record list" where
  "example_enrollment =
     [\<lparr>contract_id = ''A'', year = 2024, county_fips = ''06001'', enrollment = Some 80\<rparr>,
      \<lparr>contract_id = ''A'', year = 2024, county_fips = ''06003'', enrollment = Some 20\<rparr>]"

definition example_poverty_partial :: "county_poverty list" where
  "example_poverty_partial =
     [\<lparr>p_year = 2023, p_county_fips = ''06001'', pov_rate_all = Some (10 / 100)\<rparr>,
      \<lparr>p_year = 2024, p_county_fips = ''06003'', pov_rate_all = Some (30 / 100)\<rparr>]"

definition example_rucc :: "county_rucc list" where
  "example_rucc =
     [\<lparr>r_county_fips = ''06001'', rural_indicator = Some 0\<rparr>,
      \<lparr>r_county_fips = ''06003'', rural_indicator = None\<rparr>]"

definition example_poverty_none :: "county_poverty list" where
  "example_poverty_none =
     [\<lparr>p_year = 2024, p_county_fips = ''06001'', pov_rate_all = Some (10 / 100)\<rparr>,
      \<lparr>p_year = 2023, p_county_fips = ''06003'', pov_rate_all = None\<rparr>]"

section \<open>Shortage-score exposure (16\_build\_hpsa\_exposure.py)\<close>

record county_hpsa =
  h_county_fips :: string
  hpsa_pc_score :: "real option"

text \<open>A row of the CTE \<open>j\<close>.\<close>

record hpsa_joined_row =
  hj_contract_id :: string
  hj_contract_year :: int
  hj_county_fips :: string
  hj_w :: real
  hpsa_score :: real
  is_designated :: int

record contract_year_hpsa =
  he_contract_id :: string
  he_contract_year :: int
  hpsa_exposure :: real
  hpsa_designated_weight_share :: real
  counties_total :: int
  counties_designated :: int

text \<open>The CTEs \<open>w\<close> (\<open>WHERE w_enroll IS NOT NULL AND w_enroll > 0\<close>) and \<open>h\<close>
  (\<open>WHERE hpsa_pc_score IS NOT NULL\<close>).\<close>

definition hpsa_w :: "contract_county_weight list \<Rightarrow> contract_county_weight list" where
  "hpsa_w ws = filter (\<lambda>w. w_enroll w > 0) ws"

definition hpsa_h :: "county_hpsa list \<Rightarrow> county_hpsa list" where
  "hpsa_h hpsa = filter (\<lambda>h. hpsa_pc_score h \<noteq> None) hpsa"

definition hpsa_on :: "contract_county_weight \<Rightarrow> county_hpsa \<Rightarrow> bool" where
  "hpsa_on w h = (w_county_fips w = h_county_fips h)"

definition hpsa_j_row :: "contract_county_weight \<times> county_hpsa option \<Rightarrow> hpsa_joined_row" where
  "hpsa_j_row wh =
     (let score = (case snd wh of None \<Rightarrow> None | Some h \<Rightarrow> hpsa_pc_score h) in
      \<lparr> hj_contract_id = w_contract_id (fst wh),
        hj_contract_year = w_year (fst wh),
        hj_county_fips = w_county_fips (fst wh),
        hj_w = w_enroll (fst wh),
        hpsa_score = (case score of None \<Rightarrow> 0 | Some s \<Rightarrow> s),
        is_designated = (case score of None \<Rightarrow> 0 | Some s \<Rightarrow> 1) \<rparr>)"

definition hpsa_j :: "contract_county_weight list \<Rightarrow> county_hpsa list \<Rightarrow> hpsa_joined_row list" where
  "hpsa_j ws hpsa = map hpsa_j_row (left_join hpsa_on (hpsa_w ws) (hpsa_h hpsa))"

definition hj_key :: "hpsa_joined_row \<Rightarrow> string \<times> int" where
  "hj_key j = (hj_contract_id j, hj_contract_year j)"

definition hpsa_row :: "hpsa_joined_row list \<Rightarrow> string \<times> int \<Rightarrow> contract_year_hpsa" where
  "hpsa_row js k =
     (let g = filter (\<lambda>j. hj_key j = k) js in
      \<lparr> he_contract_id = fst k,
        he_contract_year = snd k,
        hpsa_exposure = sum_list (map (\<lambda>j. hj_w j * hpsa_score j) g),
        hpsa_designated_weight_share =
          sum_list (map (\<lambda>j. if is_designated j = 1 then hj_w j else 0) g),
        counties_total = int (length g),
        counties_designated = sum_list (map (\<lambda>j. if is_designated j = 1 then 1 else 0) g) \<rparr>)"

definition contract_year_hpsa_exposure ::
  "contract_county_weight list \<Rightarrow> county_hpsa list \<Rightarrow> contract_year_hpsa list" where
  "contract_year_hpsa_exposure ws hpsa =
     (let js = hpsa_j ws hpsa in map (hpsa_row js) (remdups (map hj_key js)))"

text \<open>The shortage score of a county in the specification's words: the score of its row
  in the designation table, none for a county that is not designated.\<close>

definition shortage_score :: "county_hpsa list \<Rightarrow> string \<Rightarrow> real option" where
  "shortage_score hpsa fips =
     (case find (\<lambda>h. h_county_fips h = fips) hpsa of None \<Rightarrow> None | Some h \<Rightarrow> hpsa_pc_score h)"

definition example_hpsa :: "county_hpsa list" where
  "example_hpsa = [\<lparr>h_county_fips = ''06001'', hpsa_pc_score = Some 10\<rparr>]"

section \<open>Geographic concentration (14\_model\_full\_stars.py, step 1)\<close>

record geo_concentration =
  g_contract_id :: string
  g_contract_year :: int
  hhi :: real
  entropy :: real
  top1_share :: "real option"
  top5_share :: real
  n_counties :: int

text \<open>The CTE \<open>w\<close>: \<open>WHERE w_enroll IS NOT NULL AND w_enroll > 0\<close>.\<close>

definition geo_w :: "contract_county_weight list \<Rightarrow> contract_county_weight list" where
  "geo_w ws = filter (\<lambda>w. w_enroll w > 0) ws"

text \<open>The CTE \<open>ranked\<close> within one partition:
  \<open>ROW_NUMBER() OVER (PARTITION BY contract_id, contract_year ORDER BY w DESC)\<close>, as
  pairs of row number and weight. Rows of equal weight are interchangeable in every
  aggregate below.\<close>

definition ranked :: "real list \<Rightarrow> (nat \<times> real) list" where
  "ranked g = enumerate 1 (rev (sort g))"

definition geo_row :: "string \<times> int \<Rightarrow> real list \<Rightarrow> geo_concentration" where
  "geo_row k g =
     \<lparr> g_contract_id = fst k,
       g_contract_year = snd k,
       hhi = sum_list (map (\<lambda>(rn, w). w * w) (ranked g)),
       entropy = - sum_list (map (\<lambda>(rn, w). w * ln w) (ranked g)),
       top1_share = sql_max (map snd (ranked g)),
       top5_share = sum_list (map (\<lambda>(rn, w). if rn \<le> 5 then w else 0) (ranked g)),
       n_counties = int (length (ranked g)) \<rparr>"

definition contract_year_geo_concentration :: "contract_county_weight list \<Rightarrow> geo_concentration list" where
  "contract_year_geo_concentration ws =
     map (\<lambda>k. geo_row k (map w_enroll (weight_group (geo_w ws) (fst k) (snd k))))
         (remdups (map (\<lambda>w. (w_contract_id w, w_year w)) (geo_w ws)))"

section \<open>Near-threshold sample (08\_build\_near\_threshold\_analysis.py)\<close>

record contract_year_stars =
  s_contract_id :: string
  s_contract_year :: int
  stars_rating :: "real option"

text \<open>\<open>contract_year_analysis_base\<close>: the stars table left-joined to the poverty
  exposure table; the exposure columns are NULL for a stars row without a partner.\<close>

record analysis_base =
  b_contract_id :: string
  b_contract_year :: int
  b_stars_rating :: "real option"
  poverty_exposure :: "real option"
  b_coverage_weight_share :: "real option"
  b_out_of_scope_geography :: "int option"
  b_total_enrollment :: "int option"

record near_threshold = analysis_base +
  above_4star :: int
  threshold_band :: string

definition base_on :: "contract_year_stars \<Rightarrow> contract_year_exposure \<Rightarrow> bool" where
  "base_on s p = (e_contract_id p = s_contract_id s \<and> e_contract_year p = s_contract_year s)"

definition base_row :: "contract_year_stars \<times> contract_year_exposure option \<Rightarrow> analysis_base" where
  "base_row sp =
     \<lparr> b_contract_id = s_contract_id (fst sp),
       b_contract_year = s_contract_year (fst sp),
       b_stars_rating = stars_rating (fst sp),
       poverty_exposure = (case snd sp of None \<Rightarrow> None | Some p \<Rightarrow> exposure p),
       b_coverage_weight_share = map_option coverage_weight_share (snd sp),
       b_out_of_scope_geography = map_option out_of_scope_geography (snd sp),
       b_total_enrollment = (case snd sp of None \<Rightarrow> None | Some p \<Rightarrow> total_enrollment p) \<rparr>"

definition contract_year_analysis_base ::
  "contract_year_stars list \<Rightarrow> contract_year_exposure list \<Rightarrow> analysis_base list" where
  "contract_year_analysis_base stars pov = map base_row (left_join base_on stars pov)"

text \<open>The \<open>WHERE\<close> clause of \<open>contract_year_near_threshold\<close>; a comparison with NULL
  does not hold.\<close>

definition near_threshold_where :: "analysis_base \<Rightarrow> bool" where
  "near_threshold_where b =
     (b_stars_rating b \<noteq> None
      \<and> poverty_exposure b \<noteq> None
      \<and> b_out_of_scope_geography b = Some 0
      \<and> (case b_stars_rating b of None \<Rightarrow> False | Some s \<Rightarrow> s \<ge> 35 / 10)
      \<and> (case b_stars_rating b of None \<Rightarrow> False | Some s \<Rightarrow> s \<le> 45 / 10))"

definition near_threshold_row :: "analysis_base \<Rightarrow> near_threshold" where
  "near_threshold_row b =
     analysis_base.extend b
       \<lparr> above_4star = (case b_stars_rating b of None \<Rightarrow> 0 | Some s \<Rightarrow> if s \<ge> 4 then 1 else 0),
         threshold_band =
           (case b_stars_rating b of
              None \<Rightarrow> ''other''
            | Some s \<Rightarrow> if s \<ge> 35 / 10 \<and> s < 4 then ''3.5-3.9''
                        else if s \<ge> 4 \<and> s \<le> 45 / 10 then ''4.0-4.5''
                        else ''other'') \<rparr>"

definition contract_year_near_threshold ::
  "contract_year_stars list \<Rightarrow> contract_year_exposure list \<Rightarrow> near_threshold list" where
  "contract_year_near_threshold stars pov =
     map near_threshold_row (filter near_threshold_where (contract_year_analysis_base stars pov))"

definition example_stars :: "contract_year_stars list" where
  "example_stars = [\<lparr>s_contract_id = ''A'', s_contract_year = 2024, stars_rating = Some 4\<rparr>]"

section \<open>Structural regression frame (14\_model\_full\_stars.py, step 4)\<close>

text \<open>A row of \<open>model_df\<close>: the stars table left-joined to the exposure, concentration
  and enrollment tables, so every feature column is nullable. \<open>m_year\<close> is the column
  \<open>contract_year\<close>, renamed \<open>year\<close> before the fit.\<close>

record model_frame_row =
  m_contract_id :: string
  m_year :: int
  m_stars :: "real option"
  m_poverty_exposure :: "real option"
  m_rural_exposure :: "real option"
  m_hpsa_exposure :: "real option"
  m_hhi :: "real option"
  m_entropy :: "real option"
  m_top1_share :: "real option"
  m_top5_share :: "real option"
  m_n_counties :: "real option"
  m_total_enrollment :: "real option"

record fit_frame_row = model_frame_row +
  log_enroll :: "real option"

text \<open>The list \<open>core\<close> and \<open>df.dropna(subset=core)\<close>.\<close>

fun notna :: "'a option \<Rightarrow> bool" where
  "notna None = False"
| "notna (Some v) = True"

definition core :: "'a model_frame_row_scheme \<Rightarrow> real option list" where
  "core r = [m_stars r, m_poverty_exposure r, m_rural_exposure r, m_hpsa_exposure r,
             m_hhi r, m_entropy r, m_top1_share r, m_top5_share r, m_n_counties r]"

definition dropna_core :: "model_frame_row list \<Rightarrow> model_frame_row list" where
  "dropna_core df = filter (\<lambda>r. list_all notna (core r)) df"

text \<open>\<open>df["total_enrollment"].fillna(1).clip(lower=1)\<close> and
  \<open>df["log_enroll"] = np.log(df["total_enrollment"])\<close>.\<close>

definition fillna_clip :: "real option \<Rightarrow> real" where
  "fillna_clip v = max (case v of None \<Rightarrow> 1 | Some t \<Rightarrow> t) 1"

definition with_log_enroll :: "model_frame_row \<Rightarrow> fit_frame_row" where
  "with_log_enroll r =
     model_frame_row.extend
       (r\<lparr>m_total_enrollment := Some (fillna_clip (m_total_enrollment r))\<rparr>)
       \<lparr>log_enroll = Some (ln (fillna_clip (m_total_enrollment r)))\<rparr>"

definition fit_frame :: "model_frame_row list \<Rightarrow> fit_frame_row list" where
  "fit_frame model_df = map with_log_enroll (dropna_core model_df)"

text \<open>The required structural features in the specification's words: the exposure
  variants, the concentration metrics and enrollment.\<close>

definition required_features :: "model_frame_row \<Rightarrow> real option list" where
  "required_features r =
     [m_poverty_exposure r, m_rural_exposure r, m_hpsa_exposure r,
      m_hhi r, m_entropy r, m_top1_share r, m_top5_share r, m_n_counties r,
      m_total_enrollment r]"

definition missing_required :: "model_frame_row \<Rightarrow> bool" where
  "missing_required r = (\<not> list_all notna (required_features r))"


section \<open>Ordinal fit and structural decomposition (14\_model\_full\_stars.py, steps 4 and 5)\<close>

datatype stage_error =
  GeoConcentrationEmpty | EnrollmentEmpty | EmptyModelFrame | NoRowsAfterDropna | NotEnoughLevels

text \<open>\<open>levels = np.sort(df["stars"].unique())\<close> and the ordinal code of a rating.\<close>

definition star_levels :: "fit_frame_row list \<Rightarrow> real list" where
  "star_levels df = sort (remdups (List.map_filter m_stars df))"

definition stars_ord :: "real list \<Rightarrow> real \<Rightarrow> nat" where
  "stars_ord levels s = length (takeWhile (\<lambda>l. l \<noteq> s) levels)"

text \<open>\<open>pd.get_dummies(df, columns=["year"], drop_first=True)\<close>: one indicator column
  per year but the first.\<close>

definition year_dummies :: "fit_frame_row list \<Rightarrow> int list" where
  "year_dummies df = tl (sort (remdups (map m_year df)))"

definition X_cols :: "int list \<Rightarrow> fit_frame_row \<Rightarrow> real option list" where
  "X_cols years r =
     [m_poverty_exposure r, m_rural_exposure r, m_hpsa_exposure r, m_hhi r, m_entropy r,
      m_top1_share r, m_top5_share r, m_n_counties r, log_enroll r]
     @ map (\<lambda>y. Some (if m_year r = y then 1 else 0)) years"

text \<open>\<open>df.replace([inf, -inf], nan).dropna(subset=X_cols + ["stars_ord"])\<close>: the rows
  the model is fitted on, each with its rating and its row of \<open>X\<close>.\<close>

definition modeled_row :: "int list \<Rightarrow> fit_frame_row \<Rightarrow> (fit_frame_row \<times> real \<times> real list) option" where
  "modeled_row years r =
     (case m_stars r of None \<Rightarrow> None
      | Some s \<Rightarrow> (case those (X_cols years r) of None \<Rightarrow> None | Some x \<Rightarrow> Some (r, s, x)))"

definition modeled_rows :: "int list \<Rightarrow> fit_frame_row list \<Rightarrow> (fit_frame_row \<times> real \<times> real list) list" where
  "modeled_rows years df = List.map_filter (modeled_row years) df"

text \<open>
  Modelled from the spec: the fitted per-level probabilities of the ordered-category
  (cumulative-odds) logistic regression. The estimator, statsmodels' \<open>OrderedModel\<close>, is
  a third-party library and not among the sources. In the cumulative-odds model the
  probability of a rating at or below level \<open>k\<close> is the logistic function of the
  \<open>k\<close>-th cut point minus the linear predictor, and the probability of a level is the
  difference of two neighbouring cumulative probabilities, the outermost being 0 and 1.
  The parameter vector of a fit holds the coefficients \<open>beta\<close> and the threshold
  parameters \<open>th\<close>: the first cut point and the logarithms of the increments between
  cut points.
\<close>

fun cumsum :: "real \<Rightarrow> real list \<Rightarrow> real list" where
  "cumsum acc [] = []"
| "cumsum acc (x # xs) = (acc + x) # cumsum (acc + x) xs"

definition transform_threshold_params :: "real list \<Rightarrow> real list" where
  "transform_threshold_params th =
     (case th of [] \<Rightarrow> [] | t # ts \<Rightarrow> cumsum 0 (t # map exp ts))"

definition cdf :: "real \<Rightarrow> real" where
  "cdf z = 1 / (1 + exp (- z))"

fun diffs :: "real list \<Rightarrow> real list" where
  "diffs (a # b # xs) = (b - a) # diffs (b # xs)"
| "diffs xs = []"

definition linpred :: "real list \<Rightarrow> real list \<Rightarrow> real" where
  "linpred beta x = sum_list (map2 (*) x beta)"

definition predict :: "real list \<Rightarrow> real list \<Rightarrow> real list \<Rightarrow> real list" where
  "predict beta th x =
     diffs (0 # map (\<lambda>c. cdf (c - linpred beta x)) (transform_threshold_params th) @ [1])"

text \<open>\<open>expected_stars = np.asarray(probs) @ levels\<close> and
  \<open>operational_residual = m_stars - expected_stars_structural\<close>.\<close>

record decomposition_row = fit_frame_row +
  expected_stars_structural :: real
  operational_residual :: real

definition expected_stars :: "real list \<Rightarrow> real list \<Rightarrow> real" where
  "expected_stars probs levels = sum_list (map2 (*) probs levels)"

definition decomposition_row_of ::
  "real list \<Rightarrow> real list \<Rightarrow> real list \<Rightarrow> fit_frame_row \<times> real \<times> real list \<Rightarrow> decomposition_row" where
  "decomposition_row_of beta th levels rsx =
     (case rsx of (r, s, x) \<Rightarrow>
        fit_frame_row.extend r
          \<lparr> expected_stars_structural = expected_stars (predict beta th x) levels,
            operational_residual = s - expected_stars (predict beta th x) levels \<rparr>)"

definition structural_decomposition ::
  "real list \<Rightarrow> real list \<Rightarrow> model_frame_row list \<Rightarrow> stage_error + decomposition_row list" where
  "structural_decomposition beta th model_df =
     (if model_df = [] then Inl EmptyModelFrame
      else let df = fit_frame model_df in
        if df = [] then Inl NoRowsAfterDropna
        else let levels = star_levels df in
          if length levels < 3 then Inl NotEnoughLevels
          else Inr (map (decomposition_row_of beta th levels) (modeled_rows (year_dummies df) df)))"


section \<open>Assembly of the model frame (14\_model\_full\_stars.py, steps 2 and 3)\<close>

text \<open>\<open>contract_year_enrollment\<close>: \<open>MAX(CAST(contract_year_total_enrollment AS DOUBLE))\<close>
  per contract-year of the weight table. The query's \<open>WHERE ... IS NOT NULL\<close> keeps every
  row, the column being non-null in the table 05\_build\_weights.py writes.\<close>

record enrollment_row =
  en_contract_id :: string
  en_contract_year :: int
  en_total_enrollment :: "real option"

definition contract_year_enrollment :: "contract_county_weight list \<Rightarrow> enrollment_row list" where
  "contract_year_enrollment ws =
     map (\<lambda>k. \<lparr> en_contract_id = fst k,
                  en_contract_year = snd k,
                  en_total_enrollment =
                    sql_max (map (\<lambda>w. real_of_int (contract_year_total_enrollment w))
                                 (weight_group ws (fst k) (snd k))) \<rparr>)
         (remdups (map (\<lambda>w. (w_contract_id w, w_year w)) ws))"

text \<open>The query of \<open>model_df\<close>: the CTE \<open>s\<close> (\<open>WHERE stars_rating IS NOT NULL\<close>)
  left-joined in turn to \<open>p\<close>, \<open>r\<close>, \<open>h\<close>, \<open>g\<close> and \<open>e\<close>, each on the contract and
  year of \<open>s\<close>.\<close>

definition frame_s :: "contract_year_stars list \<Rightarrow> contract_year_stars list" where
  "frame_s stars = filter (\<lambda>s. notna (stars_rating s)) stars"

definition frame_row ::
  "((((contract_year_stars \<times> contract_year_exposure option) \<times> contract_year_exposure option)
       \<times> contract_year_hpsa option) \<times> geo_concentration option) \<times> enrollment_row option
     \<Rightarrow> model_frame_row" where
  "frame_row x =
     (case x of (((((s, p), r), h), g), e) \<Rightarrow>
        \<lparr> m_contract_id = s_contract_id s,
          m_year = s_contract_year s,
          m_stars = stars_rating s,
          m_poverty_exposure = (case p of None \<Rightarrow> None | Some p' \<Rightarrow> exposure p'),
          m_rural_exposure = (case r of None \<Rightarrow> None | Some r' \<Rightarrow> exposure r'),
          m_hpsa_exposure = map_option hpsa_exposure h,
          m_hhi = map_option hhi g,
          m_entropy = map_option entropy g,
          m_top1_share = (case g of None \<Rightarrow> None | Some g' \<Rightarrow> top1_share g'),
          m_top5_share = map_option top5_share g,
          m_n_counties = map_option (\<lambda>g'. real_of_int (n_counties g')) g,
          m_total_enrollment = (case e of None \<Rightarrow> None | Some e' \<Rightarrow> en_total_enrollment e') \<rparr>)"

definition model_frame ::
  "contract_year_stars list \<Rightarrow> contract_year_exposure list \<Rightarrow> contract_year_exposure list
     \<Rightarrow> contract_year_hpsa list \<Rightarrow> geo_concentration list \<Rightarrow> enrollment_row list
     \<Rightarrow> model_frame_row list" where
  "model_frame stars pov rural hpsa geo enroll =
     map frame_row
       (left_join (\<lambda>x e. s_contract_id (fst (fst (fst (fst x)))) = en_contract_id e
                          \<and> s_contract_year (fst (fst (fst (fst x)))) = en_contract_year e)
          (left_join (\<lambda>x g. s_contract_id (fst (fst (fst x))) = g_contract_id g
                             \<and> s_contract_year (fst (fst (fst x))) = g_contract_year g)
             (left_join (\<lambda>x h. s_contract_id (fst (fst x)) = he_contract_id h
                                \<and> s_contract_year (fst (fst x)) = he_contract_year h)
                (left_join (\<lambda>x r. s_contract_id (fst x) = e_contract_id r
                                   \<and> s_contract_year (fst x) = e_contract_year r)
                   (left_join (\<lambda>s p. s_contract_id s = e_contract_id p
                                      \<and> s_contract_year s = e_contract_year p)
                      (frame_s stars) pov)
                   rural)
                hpsa)
             geo)
          enroll)"

text \<open>Steps 1 to 3 of \<open>main\<close>: the concentration and enrollment tables are computed from
  the weight table, \<open>main\<close> stops when one of them is empty, and the frame is joined.\<close>

definition build_model_frame ::
  "contract_year_stars list \<Rightarrow> contract_year_exposure list \<Rightarrow> contract_year_exposure list
     \<Rightarrow> contract_year_hpsa list \<Rightarrow> contract_county_weight list
     \<Rightarrow> stage_error + model_frame_row list" where
  "build_model_frame stars pov rural hpsa ws =
     (let geo_df = contract_year_geo_concentration ws in
      if geo_df = [] then Inl GeoConcentrationEmpty
      else let enroll_df = contract_year_enrollment ws in
        if enroll_df = [] then Inl EnrollmentEmpty
        else Inr (model_frame stars pov rural hpsa geo_df enroll_df))"

text \<open>A run of the pipeline for the examples: three contracts with enrollment and ratings
  3, 4 and 5, one rated contract (D) without enrollment, one contract without a rating.\<close>

definition example_enrollment3 :: "enrollment_record list" where
  "example_enrollment3 =
     [\<lparr>contract_id = ''A'', year = 2024, county_fips = ''06001'', enrollment = Some 80\<rparr>,
      \<lparr>contract_id = ''A'', year = 2024, county_fips = ''06003'', enrollment = Some 20\<rparr>,
      \<lparr>contract_id = ''B'', year = 2024, county_fips = ''06001'', enrollment = Some 50\<rparr>,
      \<lparr>contract_id = ''C'', year = 2024, county_fips = ''06003'', enrollment = Some 10\<rparr>]"

definition example_stars3 :: "contract_year_stars list" where
  "example_stars3 =
     [\<lparr>s_contract_id = ''A'', s_contract_year = 2024, stars_rating = Some 4\<rparr>,
      \<lparr>s_contract_id = ''B'', s_contract_year = 2024, stars_rating = Some 3\<rparr>,
      \<lparr>s_contract_id = ''C'', s_contract_year = 2024, stars_rating = Some 5\<rparr>,
      \<lparr>s_contract_id = ''D'', s_contract_year = 2024, stars_rating = Some (35 / 10)\<rparr>,
      \<lparr>s_contract_id = ''E'', s_contract_year = 2024, stars_rating = None\<rparr>]"

definition example_poverty_full :: "county_poverty list" where
  "example_poverty_full =
     [\<lparr>p_year = 2023, p_county_fips = ''06001'', pov_rate_all = Some (10 / 100)\<rparr>,
      \<lparr>p_year = 2023, p_county_fips = ''06003'', pov_rate_all = Some (30 / 100)\<rparr>]"

definition example_rucc_full :: "county_rucc list" where
  "example_rucc_full =
     [\<lparr>r_county_fips = ''06001'', rural_indicator = Some 0\<rparr>,
      \<lparr>r_county_fips = ''06003'', rural_indicator = Some 1\<rparr>]"

definition example_run_frame :: "stage_error + model_frame_row list" where
  "example_run_frame =
     build_model_frame example_stars3
       (contract_year_poverty_exposure_clean (contract_county_weights example_enrollment3) example_poverty_full)
       (contract_year_rural_exposure (contract_county_weights example_enrollment3) example_rucc_full)
       (contract_year_hpsa_exposure (contract_county_weights example_enrollment3) example_hpsa)
       (contract_county_weights example_enrollment3)"

definition example_joined ::
  "(((((contract_year_stars \<times> contract_year_exposure option) \<times> contract_year_exposure option)
       \<times> contract_year_hpsa option) \<times> geo_concentration option) \<times> enrollment_row option) list" where
  "example_joined =
       [(((((\<lparr>s_contract_id = ''A'', s_contract_year = 2024, stars_rating = Some 4\<rparr>,
             Some \<lparr>e_contract_id = ''A'', e_contract_year = 2024, total_enrollment = Some 100,
                   exposure = Some (14 / 100), coverage_weight_share = 1, out_of_scope_geography = 0\<rparr>),
            Some \<lparr>e_contract_id = ''A'', e_contract_year = 2024, total_enrollment = Some 100,
                  exposure = Some (2 / 10), coverage_weight_share = 1, out_of_scope_geography = 0\<rparr>),
           Some \<lparr>he_contract_id = ''A'', he_contract_year = 2024, hpsa_exposure = 8,
                 hpsa_designated_weight_share = 8 / 10, counties_total = 2, counties_designated = 1\<rparr>),
          Some (geo_row (''A'', 2024) [8 / 10, 2 / 10])),
         Some \<lparr>en_contract_id = ''A'', en_contract_year = 2024, en_total_enrollment = Some 100\<rparr>),
        (((((\<lparr>s_contract_id = ''B'', s_contract_year = 2024, stars_rating = Some 3\<rparr>,
             Some \<lparr>e_contract_id = ''B'', e_contract_year = 2024, total_enrollment = Some 50,
                   exposure = Some (10 / 100), coverage_weight_share = 1, out_of_scope_geography = 0\<rparr>),
            Some \<lparr>e_contract_id = ''B'', e_contract_year = 2024, total_enrollment = Some 50,
                  exposure = Some 0, coverage_weight_share = 1, out_of_scope_geography = 0\<rparr>),
           Some \<lparr>he_contract_id = ''B'', he_contract_year = 2024, hpsa_exposure = 10,
                 hpsa_designated_weight_share = 1, counties_total = 1, counties_designated = 1\<rparr>),
          Some (geo_row (''B'', 2024) [1])),
         Some \<lparr>en_contract_id = ''B'', en_contract_year = 2024, en_total_enrollment = Some 50\<rparr>),
        (((((\<lparr>s_contract_id = ''C'', s_contract_year = 2024, stars_rating = Some 5\<rparr>,
             Some \<lparr>e_contract_id = ''C'', e_contract_year = 2024, total_enrollment = Some 10,
                   exposure = Some (30 / 100), coverage_weight_share = 1, out_of_scope_geography = 0\<rparr>),
            Some \<lparr>e_contract_id = ''C'', e_contract_year = 2024, total_enrollment = Some 10,
                  exposure = Some 1, coverage_weight_share = 1, out_of_scope_geography = 0\<rparr>),
           Some \<lparr>he_contract_id = ''C'', he_contract_year = 2024, hpsa_exposure = 0,
                 hpsa_designated_weight_share = 0, counties_total = 1, counties_designated = 0\<rparr>),
          Some (geo_row (''C'', 2024) [1])),
         Some \<lparr>en_contract_id = ''C'', en_contract_year = 2024, en_total_enrollment = Some 10\<rparr>),
        (((((\<lparr>s_contract_id = ''D'', s_contract_year = 2024, stars_rating = Some (35 / 10)\<rparr>,
             None), None), None), None), None)]"

section \<open>Bootstrap of the near-threshold contrast (09\_threshold\_stats.py)\<close>

text \<open>A float that may be NaN is a \<open>real option\<close>.
  The random generator belongs to NumPy: the state a seed determines (\<open>seed_sequence\<close>)
  and the transition \<open>integers\<close> (a state and a bound give an index and the next state)
  are parameters of the model.\<close>


text \<open>A row of \<open>df\<close>, the six columns \<open>main\<close> selects.\<close>

record stats_row =
  t_contract_id :: string
  t_contract_year :: int
  t_threshold_band :: string
  t_above_4star :: int
  t_poverty_exposure :: "real option"
  t_total_enrollment :: "real option"



text \<open>\<open>Series.unique()\<close>: the distinct values in order of first appearance.\<close>

definition unique :: "'a list \<Rightarrow> 'a list" where
  "unique xs = rev (remdups (rev xs))"






text \<open>\<open>rng.choice(ids, size=len(ids), replace=True)\<close>: \<open>k\<close> draws, each an index
  below the number of identifiers.\<close>

fun choice :: "('g \<Rightarrow> nat \<Rightarrow> nat \<times> 'g) \<Rightarrow> 'a list \<Rightarrow> nat \<Rightarrow> 'g \<Rightarrow> 'a list \<times> 'g" where
  "choice integers ids 0 g = ([], g)"
| "choice integers ids (Suc k) g =
     (case integers g (length ids) of
        (i, g') \<Rightarrow>
          (case choice integers ids k g' of
             (rest, g'') \<Rightarrow> (ids ! (i mod length ids) # rest, g'')))"










text \<open>\<open>main\<close>: the query that reads \<open>df\<close> from \<open>contract_year_near_threshold\<close>,
  the bootstrap and the two summary tables; \<open>main\<close> stops when no year was
  resampled.\<close>

definition stats_df :: "near_threshold list \<Rightarrow> stats_row list" where
  "stats_df table =
     map (\<lambda>r. \<lparr> t_contract_id = b_contract_id r,
                  t_contract_year = b_contract_year r,
                  t_threshold_band = threshold_band r,
                  t_above_4star = above_4star r,
                  t_poverty_exposure = poverty_exposure r,
                  t_total_enrollment = map_option real_of_int (b_total_enrollment r) \<rparr>)
         (filter (\<lambda>r. threshold_band r = ''3.5-3.9'' \<or> threshold_band r = ''4.0-4.5'') table)"



text \<open>
  The resample draws in the specification's words: for each rating year in ascending
  order, skipping a year with fewer than five contracts in a band, \<open>n_boot\<close> draws, each
  a sample with replacement of the contracts of band A and then one of band B; the
  generator is one stream, so a draw starts from the state the draws before it have left.
  The draws are a function of the generator's first state and of the contract identifiers
  per year and band alone.
\<close>

definition one_draw ::
  "('g \<Rightarrow> nat \<Rightarrow> nat \<times> 'g) \<Rightarrow> string list \<Rightarrow> string list \<Rightarrow> 'g
     \<Rightarrow> (string list \<times> string list) \<times> 'g" where
  "one_draw integers ids_a ids_b g =
     (case choice integers ids_a (length ids_a) g of
        (samp_a, g1) \<Rightarrow>
          (case choice integers ids_b (length ids_b) g1 of
             (samp_b, g2) \<Rightarrow> ((samp_a, samp_b), g2)))"

definition state_after ::
  "('g \<Rightarrow> nat \<Rightarrow> nat \<times> 'g) \<Rightarrow> string list \<Rightarrow> string list \<Rightarrow> nat \<Rightarrow> 'g \<Rightarrow> 'g" where
  "state_after integers ids_a ids_b j g = ((\<lambda>s. snd (one_draw integers ids_a ids_b s)) ^^ j) g"

definition resample_draws ::
  "('g \<Rightarrow> nat \<Rightarrow> nat \<times> 'g) \<Rightarrow> string list \<Rightarrow> string list \<Rightarrow> nat \<Rightarrow> 'g
     \<Rightarrow> (string list \<times> string list) list" where
  "resample_draws integers ids_a ids_b n_boot g =
     map (\<lambda>j. fst (one_draw integers ids_a ids_b (state_after integers ids_a ids_b j g))) [0..<n_boot]"

fun resample_plan ::
  "('g \<Rightarrow> nat \<Rightarrow> nat \<times> 'g) \<Rightarrow> nat \<Rightarrow> (int \<times> string list \<times> string list) list \<Rightarrow> 'g
     \<Rightarrow> (int \<times> string list \<times> string list) list" where
  "resample_plan integers n_boot [] g = []"
| "resample_plan integers n_boot ((yr, ids_a, ids_b) # bands) g =
     (if length ids_a < 5 \<or> length ids_b < 5 then resample_plan integers n_boot bands g
      else map (\<lambda>samp. (yr, fst samp, snd samp)) (resample_draws integers ids_a ids_b n_boot g)
           @ resample_plan integers n_boot bands (state_after integers ids_a ids_b n_boot g))"

definition band_rows :: "stats_row list \<Rightarrow> int \<Rightarrow> string \<Rightarrow> stats_row list" where
  "band_rows df yr band = filter (\<lambda>r. t_threshold_band r = band) (filter (\<lambda>r. t_contract_year r = yr) df)"

definition band_ids :: "stats_row list \<Rightarrow> (int \<times> string list \<times> string list) list" where
  "band_ids df =
     map (\<lambda>yr. (yr, unique (map t_contract_id (band_rows df yr ''3.5-3.9'')),
                    unique (map t_contract_id (band_rows df yr ''4.0-4.5''))))
         (sort (remdups (map t_contract_year df)))"


definition N_BOOT :: nat where
  "N_BOOT = 2000"


text \<open>A small sample for the examples: one year, five contracts in each band, and a
  toy generator in place of NumPy's.\<close>

definition nt_row :: "string \<Rightarrow> real \<Rightarrow> real \<Rightarrow> int \<Rightarrow> near_threshold" where
  "nt_row c s p e =
     near_threshold_row
       \<lparr> b_contract_id = c, b_contract_year = 2024, b_stars_rating = Some s,
         poverty_exposure = Some p, b_coverage_weight_share = Some 1,
         b_out_of_scope_geography = Some 0, b_total_enrollment = Some e \<rparr>"

definition example_near_threshold :: "near_threshold list" where
  "example_near_threshold =
     [nt_row ''H1'' (35 / 10) (10 / 100) 100, nt_row ''H2'' (35 / 10) (12 / 100) 200,
      nt_row ''H3'' (35 / 10) (14 / 100) 300, nt_row ''H4'' (35 / 10) (16 / 100) 400,
      nt_row ''H5'' (35 / 10) (18 / 100) 500,
      nt_row ''K1'' 4 (8 / 100) 100, nt_row ''K2'' 4 (9 / 100) 100,
      nt_row ''K3'' (45 / 10) (10 / 100) 100, nt_row ''K4'' (45 / 10) (11 / 100) 100,
      nt_row ''K5'' (45 / 10) (12 / 100) 100]"


definition toy_integers :: "nat \<Rightarrow> nat \<Rightarrow> nat \<times> nat" where
  "toy_integers g n = (g mod n, (g * 13 + 7) mod 101)"

section \<open>Properties of the weight table\<close>

lemma retained_pos: "retained r \<Longrightarrow> 0 < enrollment_value r"
  by (auto simp: retained_def enrollment_value_def split: option.splits)

lemma sum_list_pos_real:
  fixes f :: "'a \<Rightarrow> 'b::linordered_idom"
  assumes "xs \<noteq> []" and "\<And>x. x \<in> set xs \<Longrightarrow> 0 < f x"
  shows "0 < sum_list (map f xs)"
  using assms
proof (induction xs)
  case Nil
  then show ?case by simp
next
  case (Cons a xs)
  have "0 \<le> sum_list (map f xs)"
    by (rule sum_list_nonneg) (use Cons.prems in \<open>auto intro: less_imp_le\<close>)
  moreover have "0 < f a" using Cons.prems by simp
  ultimately show ?case by simp
qed

lemma partition_total_pos:
  assumes "r \<in> set rows" and "\<And>x. x \<in> set rows \<Longrightarrow> retained x"
  shows "0 < partition_total rows (contract_id r) (year r)"
  unfolding partition_total_def
proof (rule sum_list_pos_real)
  show "filter (\<lambda>x. contract_id x = contract_id r \<and> year x = year r) rows \<noteq> []"
    using assms(1) by (auto simp: filter_empty_conv)
next
  fix x assume "x \<in> set (filter (\<lambda>x. contract_id x = contract_id r \<and> year x = year r) rows)"
  then show "0 < enrollment_value x" using assms(2) by (auto intro: retained_pos)
qed

lemma sum_list_divide:
  fixes f :: "'a \<Rightarrow> real"
  shows "sum_list (map (\<lambda>x. f x / c) xs) = sum_list (map f xs) / c"
  by (induction xs) (simp_all add: add_divide_distrib)

lemma real_of_int_sum_list:
  "sum_list (map (\<lambda>x. real_of_int (f x)) xs) = real_of_int (sum_list (map f xs))"
  by (induction xs) simp_all

lemma weight_group_weights:
  "weight_group (map (weight_row rows) rows) c y =
     map (weight_row rows) (filter (\<lambda>r. contract_id r = c \<and> year r = y) rows)"
  by (simp add: weight_group_def filter_map comp_def weight_row_def)

lemma group_enrollment_sum:
  "sum_list (map w_enrollment (weight_group (map (weight_row rows) rows) c y)) = partition_total rows c y"
  by (simp add: weight_group_weights partition_total_def comp_def weight_row_def)

lemma built_weights_rows:
  "contract_county_weights enr = map (weight_row (filter retained enr)) (filter retained enr)"
  by (simp add: contract_county_weights_def Let_def)

lemma built_group_sum:
  assumes pos: "0 < partition_total (filter retained enr) c y"
  shows "wsum (contract_county_weights enr) c y = 1"
proof -
  let ?rows = "filter retained enr"
  let ?g = "filter (\<lambda>r. contract_id r = c \<and> year r = y) ?rows"
  have "wsum (contract_county_weights enr) c y
      = sum_list (map (\<lambda>r. real_of_int (enrollment_value r) / real_of_int (partition_total ?rows c y)) ?g)"
    unfolding wsum_def built_weights_rows weight_group_weights map_map
    by (rule arg_cong[where f = sum_list], rule map_cong[OF refl]) (auto simp: weight_row_def)
  also have "\<dots> = sum_list (map (\<lambda>r. real_of_int (enrollment_value r)) ?g) / real_of_int (partition_total ?rows c y)"
    by (rule sum_list_divide)
  also have "sum_list (map (\<lambda>r. real_of_int (enrollment_value r)) ?g) = real_of_int (partition_total ?rows c y)"
    unfolding partition_total_def by (rule real_of_int_sum_list)
  finally show ?thesis using pos by simp
qed

lemma built_weights_pos:
  assumes "w \<in> set (contract_county_weights enr)"
  shows "0 < w_enroll w \<and> wsum (contract_county_weights enr) (w_contract_id w) (w_year w) = 1"
proof -
  let ?rows = "filter retained enr"
  from assms obtain r where r: "r \<in> set ?rows" and w: "w = weight_row ?rows r"
    by (auto simp: contract_county_weights_def Let_def)
  have "0 < enrollment_value r" using r by (auto intro: retained_pos)
  moreover have p: "0 < partition_total ?rows (contract_id r) (year r)"
    by (rule partition_total_pos[OF r]) simp
  moreover have "wsum (contract_county_weights enr) (contract_id r) (year r) = 1"
    by (rule built_group_sum[OF p])
  ultimately show ?thesis by (simp add: w weight_row_def)
qed

text \<open>
  C1. Every row of the weight table has positive enrollment and comes from a retained
  enrollment record (a record whose enrollment is missing or not positive yields no row);
  its weight is its enrollment over the summed enrollment of the rows of its contract-year
  in the table; and for every contract-year whose total retained enrollment is positive
  the weights of the group sum to 1, hence to 1 within 1e-6.
\<close>

theorem weights_normalised:
  fixes enr :: "enrollment_record list"
  defines "ws \<equiv> contract_county_weights enr"
  shows "(\<forall>w \<in> set ws. 0 < w_enrollment w)
       \<and> map (\<lambda>w. (w_contract_id w, w_year w, w_county_fips w, Some (w_enrollment w))) ws
           = map (\<lambda>r. (contract_id r, year r, county_fips r, enrollment r)) (filter retained enr)
       \<and> (\<forall>w \<in> set ws. w_enroll w = real_of_int (w_enrollment w)
              / real_of_int (sum_list (map w_enrollment (weight_group ws (w_contract_id w) (w_year w)))))
       \<and> (\<forall>c y. 0 < partition_total (filter retained enr) c y \<longrightarrow>
              wsum ws c y = 1 \<and> \<bar>wsum ws c y - 1\<bar> \<le> 1 / 10 ^ 6)"
proof -
  let ?rows = "filter retained enr"
  have ws: "ws = map (weight_row ?rows) ?rows"
    by (simp add: ws_def contract_county_weights_def Let_def)
  have ret: "\<And>x. x \<in> set ?rows \<Longrightarrow> retained x" by simp
  have a: "\<forall>w \<in> set ws. 0 < w_enrollment w"
    using ret by (auto simp: ws weight_row_def intro: retained_pos)
  have b: "map (\<lambda>w. (w_contract_id w, w_year w, w_county_fips w, Some (w_enrollment w))) ws
           = map (\<lambda>r. (contract_id r, year r, county_fips r, enrollment r)) ?rows"
    unfolding ws map_map
    by (rule map_cong[OF refl])
       (auto simp: weight_row_def retained_def enrollment_value_def split: option.splits)
  have c: "\<forall>w \<in> set ws. w_enroll w = real_of_int (w_enrollment w)
              / real_of_int (sum_list (map w_enrollment (weight_group ws (w_contract_id w) (w_year w))))"
    unfolding ws group_enrollment_sum by (auto simp: weight_row_def)
  have d: "wsum ws c y = 1" if pos: "0 < partition_total ?rows c y" for c y
    unfolding ws_def by (rule built_group_sum[OF pos])
  show ?thesis using a b c d by simp
qed

theorem weights_normalised_witness:
  "wsum (contract_county_weights
      [\<lparr>contract_id = ''A'', year = 2024, county_fips = ''06001'', enrollment = Some 80\<rparr>,
       \<lparr>contract_id = ''A'', year = 2024, county_fips = ''06003'', enrollment = Some 20\<rparr>,
       \<lparr>contract_id = ''A'', year = 2024, county_fips = ''06005'', enrollment = None\<rparr>,
       \<lparr>contract_id = ''A'', year = 2024, county_fips = ''06007'', enrollment = Some 0\<rparr>]) ''A'' 2024 = 1"
  using weights_normalised [of
      "[\<lparr>contract_id = ''A'', year = 2024, county_fips = ''06001'', enrollment = Some 80\<rparr>,
       \<lparr>contract_id = ''A'', year = 2024, county_fips = ''06003'', enrollment = Some 20\<rparr>,
       \<lparr>contract_id = ''A'', year = 2024, county_fips = ''06005'', enrollment = None\<rparr>,
       \<lparr>contract_id = ''A'', year = 2024, county_fips = ''06007'', enrollment = Some 0\<rparr>]"]
  by (simp add: retained_def partition_total_def enrollment_value_def)

section \<open>Properties of the renormalised exposures\<close>

lemma filter_unique_key:
  assumes "distinct (map k ys)"
  shows "filter (\<lambda>y. k y = a) ys = (case find (\<lambda>y. k y = a) ys of None \<Rightarrow> [] | Some y \<Rightarrow> [y])"
  using assms
proof (induction ys)
  case Nil
  then show ?case by simp
next
  case (Cons y ys)
  show ?case
  proof (cases "k y = a")
    case True
    have "k y \<notin> k ` set ys" using Cons.prems by simp
    with True have "\<forall>x \<in> set ys. k x \<noteq> a" by blast
    then have "filter (\<lambda>y. k y = a) ys = []" by (simp add: filter_empty_conv)
    with True show ?thesis by simp
  next
    case False
    then show ?thesis using Cons by simp
  qed
qed

lemma left_join_Cons:
  "left_join on_cond (x # xs) ys =
     (if filter (on_cond x) ys = [] then [(x, None)]
      else map (\<lambda>y. (x, Some y)) (filter (on_cond x) ys))
     @ left_join on_cond xs ys"
  by (simp add: left_join_def)

lemma left_join_Nil: "left_join on_cond [] ys = []"
  by (simp add: left_join_def)

lemma fst_left_join: "wp \<in> set (left_join on_cond xs ys) \<Longrightarrow> fst wp \<in> set xs"
  by (auto simp: left_join_def split: if_splits)

lemma filter_left_join:
  "filter (\<lambda>wp. P (fst wp)) (left_join on_cond xs ys) = left_join on_cond (filter P xs) ys"
proof (induction xs)
  case Nil
  then show ?case by (simp add: left_join_Nil)
next
  case (Cons x xs)
  show ?case
    by (cases "P x") (auto simp: left_join_Cons Cons.IH filter_map comp_def)
qed


lemma left_join_unique:
  assumes "distinct (map k ys)" and "\<And>x y. on_cond x y = (k y = a x)"
  shows "left_join on_cond xs ys = map (\<lambda>x. (x, find (on_cond x) ys)) xs"
proof -
  have f: "filter (on_cond x) ys = (case find (on_cond x) ys of None \<Rightarrow> [] | Some y \<Rightarrow> [y])" for x
  proof -
    have "on_cond x = (\<lambda>y. k y = a x)" by (rule ext) (simp add: assms(2))
    then show ?thesis using filter_unique_key[OF assms(1), of "a x"] by simp
  qed
  have "(if filter (on_cond x) ys = [] then [(x, None)]
         else map (\<lambda>y. (x, Some y)) (filter (on_cond x) ys)) = [(x, find (on_cond x) ys)]" for x
    by (subst (1 2) f) (simp split: option.splits)
  then show ?thesis by (simp add: left_join_def)
qed

lemma j_key_joined_of: "j_key (joined_of val wp) = (w_contract_id (fst wp), w_year (fst wp))"
  by (simp add: j_key_def joined_of_def)

lemma group_of_joined:
  "filter (\<lambda>j. j_key j = (c, y)) (map (joined_of val) (left_join on_cond ws ys))
     = map (joined_of val) (left_join on_cond (weight_group ws c y) ys)"
proof -
  have "filter (\<lambda>j. j_key j = (c, y)) (map (joined_of val) (left_join on_cond ws ys))
      = map (joined_of val)
          (filter (\<lambda>wp. w_contract_id (fst wp) = c \<and> w_year (fst wp) = y) (left_join on_cond ws ys))"
    by (simp add: filter_map comp_def j_key_joined_of)
  also have "filter (\<lambda>wp. w_contract_id (fst wp) = c \<and> w_year (fst wp) = y) (left_join on_cond ws ys)
      = left_join on_cond (weight_group ws c y) ys"
    unfolding weight_group_def by (rule filter_left_join)
  finally show ?thesis .
qed

lemma poverty_on_eq:
  "poverty_on w = (\<lambda>p. p_county_fips p = w_county_fips w \<and> p_year p = w_year w - 1)"
  by (rule ext) (simp add: poverty_on_def)

lemma poverty_group:
  assumes "distinct (map (\<lambda>p. (p_county_fips p, p_year p)) pov)"
  shows "filter (\<lambda>j. j_key j = (c, y)) (poverty_joined ws pov)
       = map (\<lambda>w. \<lparr> j_contract_id = w_contract_id w, j_contract_year = w_year w,
                     j_contract_year_total_enrollment = contract_year_total_enrollment w,
                     j_w_enroll = w_enroll w,
                     j_value = poverty_value pov (y - 1) (w_county_fips w) \<rparr>) (weight_group ws c y)"
proof -
  have on: "poverty_on w p = ((p_county_fips p, p_year p) = (w_county_fips w, w_year w - 1))" for w p
    by (simp add: poverty_on_def)
  have "filter (\<lambda>j. j_key j = (c, y)) (poverty_joined ws pov)
      = map (joined_of pov_rate_all) (left_join poverty_on (weight_group ws c y) pov)"
    unfolding poverty_joined_def by (rule group_of_joined)
  also have "\<dots> = map (joined_of pov_rate_all)
                      (map (\<lambda>w. (w, find (poverty_on w) pov)) (weight_group ws c y))"
    by (simp only: left_join_unique[OF assms on])
  also have "\<dots> = map (\<lambda>w. \<lparr> j_contract_id = w_contract_id w, j_contract_year = w_year w,
                     j_contract_year_total_enrollment = contract_year_total_enrollment w,
                     j_w_enroll = w_enroll w,
                     j_value = poverty_value pov (y - 1) (w_county_fips w) \<rparr>) (weight_group ws c y)"
    unfolding map_map
    by (rule map_cong[OF refl])
       (auto simp: weight_group_def joined_of_def poverty_value_def poverty_on_eq)
  finally show ?thesis .
qed

lemma poverty_denom:
  assumes "distinct (map (\<lambda>p. (p_county_fips p, p_year p)) pov)"
  shows "denom (filter (\<lambda>j. j_key j = (c, y)) (poverty_joined ws pov)) = matched_weight ws pov c y"
  unfolding poverty_group[OF assms] denom_def matched_weight_def map_map
  by (rule arg_cong[where f = sum_list], rule map_cong[OF refl]) (simp split: option.splits)

lemma poverty_num:
  assumes "distinct (map (\<lambda>p. (p_county_fips p, p_year p)) pov)"
  shows "num (filter (\<lambda>j. j_key j = (c, y)) (poverty_joined ws pov)) = matched_sum ws pov c y"
  unfolding poverty_group[OF assms] num_def matched_sum_def map_map
  by (rule arg_cong[where f = sum_list], rule map_cong[OF refl]) (simp split: option.splits)

lemma poverty_keys:
  assumes "distinct (map (\<lambda>p. (p_county_fips p, p_year p)) pov)"
  shows "map j_key (poverty_joined ws pov) = map (\<lambda>w. (w_contract_id w, w_year w)) ws"
proof -
  have on: "poverty_on w p = ((p_county_fips p, p_year p) = (w_county_fips w, w_year w - 1))" for w p
    by (simp add: poverty_on_def)
  show ?thesis
    by (simp add: poverty_joined_def left_join_unique[OF assms on] comp_def j_key_joined_of)
qed


lemma example_weights:
  "contract_county_weights example_enrollment =
     [\<lparr>w_contract_id = ''A'', w_year = 2024, w_county_fips = ''06001'', w_enrollment = 80,
         contract_year_total_enrollment = 100, w_enroll = 8 / 10\<rparr>,
      \<lparr>w_contract_id = ''A'', w_year = 2024, w_county_fips = ''06003'', w_enrollment = 20,
         contract_year_total_enrollment = 100, w_enroll = 2 / 10\<rparr>]"
  by (simp add: example_enrollment_def contract_county_weights_def retained_def weight_row_def
        partition_total_def enrollment_value_def)

lemma example_partial_exposure:
  "contract_year_poverty_exposure_clean (contract_county_weights example_enrollment) example_poverty_partial =
     [\<lparr>e_contract_id = ''A'', e_contract_year = 2024, total_enrollment = Some 100,
         exposure = Some (10 / 100), coverage_weight_share = 8 / 10, out_of_scope_geography = 0\<rparr>]"
  by (simp add: example_weights example_poverty_partial_def contract_year_poverty_exposure_clean_def
        renormalized_exposure_def poverty_joined_def left_join_def poverty_on_def joined_of_def
        j_key_def exposure_row_def num_def denom_def)

text \<open>
  C2. With one poverty row per county and year, the poverty exposure table has one row per
  contract-year of the weight table; its coverage weight share is the matched weight (the
  weights of the contract-year's counties that have a poverty value for the year before
  the contract year); its exposure is the sum of weight times poverty value over those
  counties divided by the matched weight when that is positive and null otherwise. On the
  scenario of the specification (weights 0.8 and 0.2, only the 0.8 county has a poverty
  value for 2023, namely 0.10) the exposure is 0.10 and the coverage weight share 0.8.
\<close>

theorem poverty_exposure_renormalised:
  assumes "distinct (map (\<lambda>p. (p_county_fips p, p_year p)) pov)"
  shows "map (\<lambda>e. (e_contract_id e, e_contract_year e)) (contract_year_poverty_exposure_clean ws pov)
           = remdups (map (\<lambda>w. (w_contract_id w, w_year w)) ws)
       \<and> (\<forall>e \<in> set (contract_year_poverty_exposure_clean ws pov).
             coverage_weight_share e = matched_weight ws pov (e_contract_id e) (e_contract_year e)
           \<and> exposure e =
               (if 0 < matched_weight ws pov (e_contract_id e) (e_contract_year e)
                then Some (matched_sum ws pov (e_contract_id e) (e_contract_year e)
                           / matched_weight ws pov (e_contract_id e) (e_contract_year e))
                else None))
       \<and> map (\<lambda>e. (exposure e, coverage_weight_share e))
             (contract_year_poverty_exposure_clean (contract_county_weights example_enrollment)
                example_poverty_partial) = [(Some (10 / 100), 8 / 10)]"
proof -
  let ?T = "contract_year_poverty_exposure_clean ws pov"
  have keys: "map (\<lambda>e. (e_contract_id e, e_contract_year e)) ?T
           = remdups (map (\<lambda>w. (w_contract_id w, w_year w)) ws)"
    by (simp add: contract_year_poverty_exposure_clean_def renormalized_exposure_def
          poverty_keys[OF assms] comp_def exposure_row_def Let_def)
  have rows: "coverage_weight_share e = matched_weight ws pov (e_contract_id e) (e_contract_year e)
           \<and> exposure e =
               (if 0 < matched_weight ws pov (e_contract_id e) (e_contract_year e)
                then Some (matched_sum ws pov (e_contract_id e) (e_contract_year e)
                           / matched_weight ws pov (e_contract_id e) (e_contract_year e))
                else None)" if "e \<in> set ?T" for e
  proof -
    from that obtain k where e: "e = exposure_row (poverty_joined ws pov) k"
      by (auto simp: contract_year_poverty_exposure_clean_def renormalized_exposure_def)
    obtain c y where k: "k = (c, y)" by (cases k)
    show ?thesis
      by (simp add: e k exposure_row_def Let_def poverty_denom[OF assms] poverty_num[OF assms])
  qed
  show ?thesis using keys rows by (simp add: example_partial_exposure)
qed

theorem poverty_exposure_renormalised_witness:
  "distinct (map (\<lambda>p. (p_county_fips p, p_year p)) example_poverty_partial)
   \<and> map (\<lambda>e. (e_contract_id e, e_contract_year e, exposure e, coverage_weight_share e))
     (contract_year_poverty_exposure_clean (contract_county_weights example_enrollment)
        example_poverty_partial) = [(''A'', 2024, Some (1 / 10), 4 / 5)]
   \<and> matched_weight (contract_county_weights example_enrollment) example_poverty_partial ''A'' 2024 = 4 / 5
   \<and> matched_sum (contract_county_weights example_enrollment) example_poverty_partial ''A'' 2024 = 8 / 100"
proof -
  have h: "distinct (map (\<lambda>p. (p_county_fips p, p_year p)) example_poverty_partial)"
    by (simp add: example_poverty_partial_def)
  have m: "matched_weight (contract_county_weights example_enrollment) example_poverty_partial ''A'' 2024 = 4 / 5"
    by (simp add: example_poverty_partial_def example_weights matched_weight_def
          weight_group_def poverty_value_def)
  have s: "matched_sum (contract_county_weights example_enrollment) example_poverty_partial ''A'' 2024 = 8 / 100"
    by (simp add: example_poverty_partial_def example_weights matched_sum_def
          weight_group_def poverty_value_def)
  show ?thesis
    using h m s poverty_exposure_renormalised [OF h, of "contract_county_weights example_enrollment"]
    by (simp add: example_partial_exposure)
qed

lemma joined_weight_nonneg:
  assumes "\<And>w. w \<in> set ws \<Longrightarrow> 0 \<le> w_enroll w"
    and "j \<in> set (map (joined_of val) (left_join on_cond ws ys))"
  shows "0 \<le> j_w_enroll j"
proof -
  from assms(2) obtain wp where "wp \<in> set (left_join on_cond ws ys)" and j: "j = joined_of val wp"
    by auto
  then have "fst wp \<in> set ws" by (auto dest: fst_left_join)
  then show ?thesis using assms(1) by (simp add: j joined_of_def)
qed

lemma denom_nonneg:
  assumes "\<And>j. j \<in> set g \<Longrightarrow> 0 \<le> j_w_enroll j"
  shows "0 \<le> denom g"
  unfolding denom_def
  by (rule sum_list_nonneg) (use assms in \<open>auto split: option.splits\<close>)

lemma coverage_invariant_rows:
  assumes "\<And>j. j \<in> set js \<Longrightarrow> 0 \<le> j_w_enroll j" and "e \<in> set (renormalized_exposure js)"
  shows "(out_of_scope_geography e = 1 \<longleftrightarrow> coverage_weight_share e = 0)
       \<and> (coverage_weight_share e = 0 \<longleftrightarrow> exposure e = None)
       \<and> (out_of_scope_geography e = 0 \<or> out_of_scope_geography e = 1)"
proof -
  from assms(2) obtain k where e: "e = exposure_row js k"
    by (auto simp: renormalized_exposure_def)
  have "0 \<le> denom (filter (\<lambda>j. j_key j = k) js)"
    by (rule denom_nonneg) (use assms(1) in auto)
  then show ?thesis by (auto simp: e exposure_row_def Let_def)
qed

text \<open>
  C3. In the poverty and the rural exposure tables built from the weight table of any
  enrollment records, for every row: the out-of-scope flag is 1 exactly when the coverage
  weight share is 0, and that exactly when the exposure is null; the flag is 0 or 1. So a
  row without coverage has a null exposure, never the value 0.
\<close>

theorem coverage_invariant:
  "\<forall>e \<in> set (contract_year_poverty_exposure_clean (contract_county_weights enr) pov)
        \<union> set (contract_year_rural_exposure (contract_county_weights enr) rucc).
     (out_of_scope_geography e = 1 \<longleftrightarrow> coverage_weight_share e = 0)
   \<and> (coverage_weight_share e = 0 \<longleftrightarrow> exposure e = None)
   \<and> (out_of_scope_geography e = 0 \<or> out_of_scope_geography e = 1)
   \<and> (coverage_weight_share e = 0 \<longrightarrow> exposure e \<noteq> Some 0)"
proof
  fix e
  assume e: "e \<in> set (contract_year_poverty_exposure_clean (contract_county_weights enr) pov)
        \<union> set (contract_year_rural_exposure (contract_county_weights enr) rucc)"
  have nn: "\<And>w. w \<in> set (contract_county_weights enr) \<Longrightarrow> 0 \<le> w_enroll w"
    by (rule less_imp_le) (simp add: built_weights_pos)
  from e consider
      (pov) "e \<in> set (renormalized_exposure (poverty_joined (contract_county_weights enr) pov))"
    | (rural) "e \<in> set (renormalized_exposure (rural_joined (contract_county_weights enr) rucc))"
    by (auto simp: contract_year_poverty_exposure_clean_def contract_year_rural_exposure_def)
  then have "(out_of_scope_geography e = 1 \<longleftrightarrow> coverage_weight_share e = 0)
       \<and> (coverage_weight_share e = 0 \<longleftrightarrow> exposure e = None)
       \<and> (out_of_scope_geography e = 0 \<or> out_of_scope_geography e = 1)"
  proof cases
    case pov
    show ?thesis
      by (rule coverage_invariant_rows[OF _ pov])
         (rule joined_weight_nonneg[OF nn], simp_all add: poverty_joined_def)
  next
    case rural
    show ?thesis
      by (rule coverage_invariant_rows[OF _ rural])
         (rule joined_weight_nonneg[OF nn], simp_all add: rural_joined_def)
  qed
  then show "(out_of_scope_geography e = 1 \<longleftrightarrow> coverage_weight_share e = 0)
   \<and> (coverage_weight_share e = 0 \<longleftrightarrow> exposure e = None)
   \<and> (out_of_scope_geography e = 0 \<or> out_of_scope_geography e = 1)
   \<and> (coverage_weight_share e = 0 \<longrightarrow> exposure e \<noteq> Some 0)"
    by auto
qed

lemma example_none_exposure:
  "contract_year_poverty_exposure_clean (contract_county_weights example_enrollment) example_poverty_none =
     [\<lparr>e_contract_id = ''A'', e_contract_year = 2024, total_enrollment = Some 100,
         exposure = None, coverage_weight_share = 0, out_of_scope_geography = 1\<rparr>]"
  by (simp add: example_weights example_poverty_none_def contract_year_poverty_exposure_clean_def
        renormalized_exposure_def poverty_joined_def left_join_def poverty_on_def joined_of_def
        j_key_def exposure_row_def num_def denom_def)

lemma example_rural_exposure:
  "contract_year_rural_exposure (contract_county_weights example_enrollment) example_rucc =
     [\<lparr>e_contract_id = ''A'', e_contract_year = 2024, total_enrollment = Some 100,
         exposure = Some 0, coverage_weight_share = 8 / 10, out_of_scope_geography = 0\<rparr>]"
  by (simp add: example_weights example_rucc_def contract_year_rural_exposure_def
        renormalized_exposure_def rural_joined_def left_join_def rural_on_def joined_of_def
        j_key_def exposure_row_def num_def denom_def)

theorem coverage_invariant_witness:
  "map (\<lambda>e. (out_of_scope_geography e, coverage_weight_share e, exposure e))
     (contract_year_poverty_exposure_clean (contract_county_weights example_enrollment) example_poverty_none
      @ contract_year_rural_exposure (contract_county_weights example_enrollment) example_rucc)
     = [(1, 0, None), (0, 8 / 10, Some 0)]"
  using coverage_invariant [of example_enrollment example_poverty_none example_rucc]
  by (simp add: example_none_exposure example_rural_exposure)

section \<open>Properties of the shortage-score exposure\<close>

lemma hpsa_on_eq: "hpsa_on w = (\<lambda>h. h_county_fips h = w_county_fips w)"
  by (rule ext) (auto simp: hpsa_on_def)

lemma find_filter_notnull:
  assumes "distinct (map k ys)"
  shows "(case find (\<lambda>y. k y = a) (filter (\<lambda>y. v y \<noteq> None) ys) of None \<Rightarrow> None | Some y \<Rightarrow> v y)
       = (case find (\<lambda>y. k y = a) ys of None \<Rightarrow> None | Some y \<Rightarrow> v y)"
  using assms
proof (induction ys)
  case Nil
  then show ?case by simp
next
  case (Cons y ys)
  show ?case
  proof (cases "k y = a")
    case True
    have "k y \<notin> k ` set ys" using Cons.prems by simp
    with True have "\<forall>x \<in> set ys. k x \<noteq> a" by blast
    then have "find (\<lambda>y. k y = a) (filter (\<lambda>y. v y \<noteq> None) ys) = None"
      by (auto simp: find_None_iff)
    with True show ?thesis by auto
  next
    case False
    then show ?thesis using Cons by simp
  qed
qed

lemma filter_left_join_group:
  "filter (\<lambda>wp. w_contract_id (fst wp) = c \<and> w_year (fst wp) = y) (left_join on_cond ws ys)
     = left_join on_cond (weight_group ws c y) ys"
  unfolding weight_group_def by (rule filter_left_join)

lemma hj_key_row: "hj_key (hpsa_j_row wh) = (w_contract_id (fst wh), w_year (fst wh))"
  by (simp add: hj_key_def hpsa_j_row_def Let_def)

lemma hpsa_group:
  assumes "distinct (map h_county_fips hpsa)"
  shows "filter (\<lambda>j. hj_key j = (c, y)) (hpsa_j ws hpsa)
       = map (\<lambda>w. \<lparr> hj_contract_id = w_contract_id w, hj_contract_year = w_year w,
                     hj_county_fips = w_county_fips w, hj_w = w_enroll w,
                     hpsa_score = (case shortage_score hpsa (w_county_fips w) of None \<Rightarrow> 0 | Some s \<Rightarrow> s),
                     is_designated = (case shortage_score hpsa (w_county_fips w) of None \<Rightarrow> 0 | Some s \<Rightarrow> 1) \<rparr>)
           (weight_group (hpsa_w ws) c y)"
proof -
  have d: "distinct (map h_county_fips (hpsa_h hpsa))"
    unfolding hpsa_h_def by (rule distinct_map_filter[OF assms])
  have on: "hpsa_on w h = (h_county_fips h = w_county_fips w)" for w h
    by (auto simp: hpsa_on_def)
  have sc: "(case find (hpsa_on w) (hpsa_h hpsa) of None \<Rightarrow> None | Some h \<Rightarrow> hpsa_pc_score h)
          = shortage_score hpsa (w_county_fips w)" for w
    unfolding hpsa_on_eq hpsa_h_def shortage_score_def by (rule find_filter_notnull[OF assms])
  have "filter (\<lambda>j. hj_key j = (c, y)) (hpsa_j ws hpsa)
      = map hpsa_j_row (filter (\<lambda>wh. w_contract_id (fst wh) = c \<and> w_year (fst wh) = y)
                          (left_join hpsa_on (hpsa_w ws) (hpsa_h hpsa)))"
    by (simp add: hpsa_j_def filter_map comp_def hj_key_row)
  also have "\<dots> = map hpsa_j_row (left_join hpsa_on (weight_group (hpsa_w ws) c y) (hpsa_h hpsa))"
    by (simp only: filter_left_join_group)
  also have "\<dots> = map hpsa_j_row (map (\<lambda>w. (w, find (hpsa_on w) (hpsa_h hpsa))) (weight_group (hpsa_w ws) c y))"
    by (simp only: left_join_unique[OF d on])
  also have "\<dots> = map (\<lambda>w. \<lparr> hj_contract_id = w_contract_id w, hj_contract_year = w_year w,
                     hj_county_fips = w_county_fips w, hj_w = w_enroll w,
                     hpsa_score = (case shortage_score hpsa (w_county_fips w) of None \<Rightarrow> 0 | Some s \<Rightarrow> s),
                     is_designated = (case shortage_score hpsa (w_county_fips w) of None \<Rightarrow> 0 | Some s \<Rightarrow> 1) \<rparr>)
           (weight_group (hpsa_w ws) c y)"
    unfolding map_map
    by (rule map_cong[OF refl]) (simp add: hpsa_j_row_def Let_def sc)
  finally show ?thesis .
qed


lemma hpsa_w_built: "hpsa_w (contract_county_weights enr) = contract_county_weights enr"
  unfolding hpsa_w_def by (rule filter_True) (simp add: built_weights_pos)

lemma hpsa_keys:
  assumes "distinct (map h_county_fips hpsa)"
  shows "map hj_key (hpsa_j ws hpsa) = map (\<lambda>w. (w_contract_id w, w_year w)) (hpsa_w ws)"
proof -
  have d: "distinct (map h_county_fips (hpsa_h hpsa))"
    unfolding hpsa_h_def by (rule distinct_map_filter[OF assms])
  have on: "hpsa_on w h = (h_county_fips h = w_county_fips w)" for w h
    by (auto simp: hpsa_on_def)
  show ?thesis
    by (simp add: hpsa_j_def left_join_unique[OF d on] comp_def hj_key_row)
qed

lemma example_hpsa_exposure:
  "contract_year_hpsa_exposure (contract_county_weights example_enrollment) example_hpsa =
     [\<lparr>he_contract_id = ''A'', he_contract_year = 2024, hpsa_exposure = 8,
         hpsa_designated_weight_share = 8 / 10, counties_total = 2, counties_designated = 1\<rparr>]"
  by (simp add: example_weights example_hpsa_def contract_year_hpsa_exposure_def hpsa_j_def
        hpsa_w_def hpsa_h_def left_join_def hpsa_on_def hpsa_j_row_def hj_key_def hpsa_row_def)

text \<open>
  C4. With one row per county in the designation table, the shortage exposure table built
  from the weight table has one row per contract-year; its exposure is the sum, over all
  the counties of the contract-year, of weight times shortage score, a county without a
  designation counting with score 0, and it is not divided by the matched weight; the
  designated weight share is the sum of the weights of the designated counties. With
  weights 0.8 and 0.2 and only the 0.8 county designated, at score 10, the exposure is 8
  (not 10) and the designated weight share is 0.8.
\<close>

theorem hpsa_exposure_raw_sum:
  assumes "distinct (map h_county_fips hpsa)"
  shows "map (\<lambda>e. (he_contract_id e, he_contract_year e))
             (contract_year_hpsa_exposure (contract_county_weights enr) hpsa)
           = remdups (map (\<lambda>w. (w_contract_id w, w_year w)) (contract_county_weights enr))
       \<and> (\<forall>e \<in> set (contract_year_hpsa_exposure (contract_county_weights enr) hpsa).
             hpsa_exposure e =
               sum_list (map (\<lambda>w. w_enroll w *
                                (case shortage_score hpsa (w_county_fips w) of None \<Rightarrow> 0 | Some s \<Rightarrow> s))
                          (weight_group (contract_county_weights enr) (he_contract_id e) (he_contract_year e)))
           \<and> hpsa_designated_weight_share e =
               sum_list (map (\<lambda>w. case shortage_score hpsa (w_county_fips w) of
                                     None \<Rightarrow> 0 | Some s \<Rightarrow> w_enroll w)
                          (weight_group (contract_county_weights enr) (he_contract_id e) (he_contract_year e))))
       \<and> map (\<lambda>e. (hpsa_exposure e, hpsa_designated_weight_share e))
             (contract_year_hpsa_exposure (contract_county_weights example_enrollment) example_hpsa)
           = [(8, 8 / 10)]"
proof -
  let ?ws = "contract_county_weights enr"
  let ?T = "contract_year_hpsa_exposure ?ws hpsa"
  have keys: "map (\<lambda>e. (he_contract_id e, he_contract_year e)) ?T
           = remdups (map (\<lambda>w. (w_contract_id w, w_year w)) ?ws)"
    by (simp add: contract_year_hpsa_exposure_def Let_def hpsa_keys[OF assms] hpsa_w_built
          comp_def hpsa_row_def)
  have rows: "hpsa_exposure e =
               sum_list (map (\<lambda>w. w_enroll w *
                                (case shortage_score hpsa (w_county_fips w) of None \<Rightarrow> 0 | Some s \<Rightarrow> s))
                          (weight_group ?ws (he_contract_id e) (he_contract_year e)))
           \<and> hpsa_designated_weight_share e =
               sum_list (map (\<lambda>w. case shortage_score hpsa (w_county_fips w) of
                                     None \<Rightarrow> 0 | Some s \<Rightarrow> w_enroll w)
                          (weight_group ?ws (he_contract_id e) (he_contract_year e)))"
    if "e \<in> set ?T" for e
  proof -
    from that obtain k where e: "e = hpsa_row (hpsa_j ?ws hpsa) k"
      by (auto simp: contract_year_hpsa_exposure_def Let_def)
    obtain c y where k: "k = (c, y)" by (cases k)
    have 1: "hpsa_exposure e = sum_list (map (\<lambda>w. w_enroll w *
                                (case shortage_score hpsa (w_county_fips w) of None \<Rightarrow> 0 | Some s \<Rightarrow> s))
                          (weight_group ?ws c y))"
      by (simp add: e k hpsa_row_def Let_def hpsa_group[OF assms] hpsa_w_built comp_def)
    have 2: "hpsa_designated_weight_share e =
               sum_list (map (\<lambda>w. case shortage_score hpsa (w_county_fips w) of
                                     None \<Rightarrow> 0 | Some s \<Rightarrow> w_enroll w)
                          (weight_group ?ws c y))"
      unfolding e k hpsa_row_def Let_def hpsa_group[OF assms] hpsa_w_built
      by (simp add: comp_def, rule arg_cong[where f = sum_list], rule map_cong[OF refl])
         (simp split: option.splits)
    have 3: "he_contract_id e = c" "he_contract_year e = y"
      by (simp_all add: e k hpsa_row_def Let_def)
    show ?thesis using 1 2 3 by simp
  qed
  show ?thesis using keys rows by (simp add: example_hpsa_exposure)
qed

theorem hpsa_exposure_raw_sum_witness:
  "distinct (map h_county_fips example_hpsa)
   \<and> map (\<lambda>e. (he_contract_id e, he_contract_year e, hpsa_exposure e, hpsa_designated_weight_share e))
         (contract_year_hpsa_exposure (contract_county_weights example_enrollment) example_hpsa)
       = [(''A'', 2024, 8, 4 / 5)]
   \<and> sum_list (map (\<lambda>w. w_enroll w *
                       (case shortage_score example_hpsa (w_county_fips w) of None \<Rightarrow> 0 | Some s \<Rightarrow> s))
                 (weight_group (contract_county_weights example_enrollment) ''A'' 2024)) = 8"
proof -
  have h: "distinct (map h_county_fips example_hpsa)"
    by (simp add: example_hpsa_def)
  have s: "sum_list (map (\<lambda>w. w_enroll w *
                       (case shortage_score example_hpsa (w_county_fips w) of None \<Rightarrow> 0 | Some s \<Rightarrow> s))
                 (weight_group (contract_county_weights example_enrollment) ''A'' 2024)) = 8"
    by (simp add: example_weights example_hpsa_def weight_group_def shortage_score_def)
  show ?thesis
    using h s hpsa_exposure_raw_sum [OF h, of example_enrollment]
    by (simp add: example_hpsa_exposure)
qed

section \<open>Properties of the concentration metrics\<close>








lemma sql_max_Max: "xs \<noteq> [] \<Longrightarrow> sql_max xs = Some (Max (set xs))"
proof (induction xs)
  case Nil
  then show ?case by simp
next
  case (Cons x xs)
  show ?case
  proof (cases "xs = []")
    case True
    then show ?thesis by simp
  next
    case False
    then show ?thesis using Cons by (simp add: max.commute)
  qed
qed






text \<open>The rows of the concentration table computed from the weight table of
  05\_build\_weights.py are \<open>geo_row\<close> of weight lists that are positive and sum to 1.\<close>

lemma geo_rows_of_built_weights:
  assumes "e \<in> set (contract_year_geo_concentration (contract_county_weights enr))"
  shows "\<exists>k g. e = geo_row k g \<and> (\<forall>w \<in> set g. 0 < w) \<and> sum_list g = 1"
proof -
  let ?ws = "contract_county_weights enr"
  have gw: "geo_w ?ws = ?ws"
    unfolding geo_w_def by (rule filter_True) (simp add: built_weights_pos)
  from assms obtain w where w: "w \<in> set ?ws"
    and e: "e = geo_row (w_contract_id w, w_year w)
                  (map w_enroll (weight_group ?ws (w_contract_id w) (w_year w)))"
    by (auto simp: contract_year_geo_concentration_def gw)
  have "\<forall>x \<in> set (map w_enroll (weight_group ?ws (w_contract_id w) (w_year w))). 0 < x"
    by (auto simp: weight_group_def built_weights_pos)
  moreover have "sum_list (map w_enroll (weight_group ?ws (w_contract_id w) (w_year w))) = 1"
    using built_weights_pos[OF w] by (simp add: wsum_def)
  ultimately show ?thesis using e by blast
qed



section \<open>Properties of the near-threshold sample\<close>

lemma near_threshold_row_fields:
  "b_contract_id (near_threshold_row b) = b_contract_id b"
  "b_contract_year (near_threshold_row b) = b_contract_year b"
  "b_stars_rating (near_threshold_row b) = b_stars_rating b"
  "poverty_exposure (near_threshold_row b) = poverty_exposure b"
  "b_out_of_scope_geography (near_threshold_row b) = b_out_of_scope_geography b"
  by (simp_all add: near_threshold_row_def analysis_base.defs)

lemma base_row_of_join:
  assumes "b \<in> set (contract_year_analysis_base stars pov)"
  shows "(poverty_exposure b = None \<and> b_out_of_scope_geography b = None)
       \<or> (\<exists>p \<in> set pov. e_contract_id p = b_contract_id b \<and> e_contract_year p = b_contract_year b
              \<and> poverty_exposure b = exposure p
              \<and> b_out_of_scope_geography b = Some (out_of_scope_geography p))"
proof -
  from assms obtain sp where sp: "sp \<in> set (left_join base_on stars pov)" and b: "b = base_row sp"
    by (auto simp: contract_year_analysis_base_def)
  obtain s po where spe: "sp = (s, po)" by (cases sp)
  show ?thesis
  proof (cases po)
    case None
    then show ?thesis by (simp add: b spe base_row_def)
  next
    case (Some p)
    then have "p \<in> set pov \<and> base_on s p"
      using sp by (auto simp: spe left_join_def split: if_splits)
    then show ?thesis using Some by (auto simp: b spe base_row_def base_on_def)
  qed
qed

text \<open>
  C8. Every row of the near-threshold table has a poverty exposure that is not null and
  the out-of-scope flag 0. Hence a contract-year all of whose rows in the poverty exposure
  table (if any) have a null exposure or a flag other than 0 has no row in the
  near-threshold table, whatever its rating. In the scenario of the specification, a
  contract with no matched county and rating 4.0, the near-threshold table is empty.
\<close>

theorem near_threshold_excludes_null_exposure:
  "(\<forall>r \<in> set (contract_year_near_threshold stars pov).
        poverty_exposure r \<noteq> None \<and> b_out_of_scope_geography r = Some 0)
   \<and> ((\<forall>p \<in> set pov. e_contract_id p = c \<and> e_contract_year p = y \<longrightarrow>
            exposure p = None \<or> out_of_scope_geography p \<noteq> 0)
        \<longrightarrow> (\<forall>r \<in> set (contract_year_near_threshold stars pov).
               \<not> (b_contract_id r = c \<and> b_contract_year r = y)))
   \<and> contract_year_near_threshold example_stars
        (contract_year_poverty_exposure_clean (contract_county_weights example_enrollment)
           example_poverty_none) = []"
proof -
  have a: "poverty_exposure r \<noteq> None \<and> b_out_of_scope_geography r = Some 0"
    if "r \<in> set (contract_year_near_threshold stars pov)" for r
    using that
    by (auto simp: contract_year_near_threshold_def near_threshold_row_fields near_threshold_where_def)
  have b: "\<not> (b_contract_id r = c \<and> b_contract_year r = y)"
    if h: "\<forall>p \<in> set pov. e_contract_id p = c \<and> e_contract_year p = y \<longrightarrow>
            exposure p = None \<or> out_of_scope_geography p \<noteq> 0"
      and r: "r \<in> set (contract_year_near_threshold stars pov)" for r
  proof
    assume k: "b_contract_id r = c \<and> b_contract_year r = y"
    from r obtain b where b: "b \<in> set (contract_year_analysis_base stars pov)"
      and w: "near_threshold_where b" and rb: "r = near_threshold_row b"
      by (auto simp: contract_year_near_threshold_def)
    have kb: "b_contract_id b = c \<and> b_contract_year b = y"
      using k by (simp add: rb near_threshold_row_fields)
    have ok: "poverty_exposure b \<noteq> None \<and> b_out_of_scope_geography b = Some 0"
      using w by (simp add: near_threshold_where_def)
    from base_row_of_join[OF b] ok obtain p where "p \<in> set pov"
      "e_contract_id p = b_contract_id b" "e_contract_year p = b_contract_year b"
      "poverty_exposure b = exposure p" "b_out_of_scope_geography b = Some (out_of_scope_geography p)"
      by auto
    then show False using h kb ok by auto
  qed
  have e: "contract_year_near_threshold example_stars
        (contract_year_poverty_exposure_clean (contract_county_weights example_enrollment)
           example_poverty_none) = []"
    by (simp add: example_none_exposure example_stars_def contract_year_near_threshold_def
          contract_year_analysis_base_def left_join_def base_on_def base_row_def near_threshold_where_def)
  show ?thesis using a b e by blast
qed

theorem near_threshold_excludes_null_exposure_witness:
  "map (\<lambda>p. (e_contract_id p, e_contract_year p, exposure p, out_of_scope_geography p))
      (contract_year_poverty_exposure_clean (contract_county_weights example_enrollment)
         example_poverty_none) = [(''A'', 2024, None, 1)]
   \<and> filter (\<lambda>r. b_contract_id r = ''A'' \<and> b_contract_year r = 2024)
        (contract_year_near_threshold example_stars
           (contract_year_poverty_exposure_clean (contract_county_weights example_enrollment)
              example_poverty_none)) = []
   \<and> map (\<lambda>r. (b_contract_id r, b_stars_rating r, poverty_exposure r, threshold_band r))
         (contract_year_near_threshold example_stars
            (contract_year_poverty_exposure_clean (contract_county_weights example_enrollment)
               example_poverty_partial))
       = [(''A'', Some 4, Some (1 / 10), ''4.0-4.5'')]"
proof -
  let ?pov = "contract_year_poverty_exposure_clean (contract_county_weights example_enrollment)
                 example_poverty_none"
  have h: "\<forall>p \<in> set ?pov. e_contract_id p = ''A'' \<and> e_contract_year p = 2024 \<longrightarrow>
         exposure p = None \<or> out_of_scope_geography p \<noteq> 0"
    by (simp add: example_none_exposure)
  have t: "map (\<lambda>p. (e_contract_id p, e_contract_year p, exposure p, out_of_scope_geography p)) ?pov
             = [(''A'', 2024, None, 1)]"
    by (simp add: example_none_exposure)
  have p: "map (\<lambda>r. (b_contract_id r, b_stars_rating r, poverty_exposure r, threshold_band r))
         (contract_year_near_threshold example_stars
            (contract_year_poverty_exposure_clean (contract_county_weights example_enrollment)
               example_poverty_partial))
       = [(''A'', Some 4, Some (1 / 10), ''4.0-4.5'')]"
    by (simp add: example_partial_exposure example_stars_def contract_year_near_threshold_def
          contract_year_analysis_base_def left_join_def base_on_def base_row_def near_threshold_where_def
          near_threshold_row_def analysis_base.defs)
  from near_threshold_excludes_null_exposure [of example_stars ?pov "''A''" 2024] h
  have "\<forall>r \<in> set (contract_year_near_threshold example_stars ?pov).
          \<not> (b_contract_id r = ''A'' \<and> b_contract_year r = 2024)"
    by blast
  then have "filter (\<lambda>r. b_contract_id r = ''A'' \<and> b_contract_year r = 2024)
        (contract_year_near_threshold example_stars ?pov) = []"
    by (simp add: filter_empty_conv)
  then show ?thesis using t p by simp
qed

section \<open>Properties of the regression frame and the decomposition\<close>

lemma with_log_enroll_fields:
  "m_contract_id (with_log_enroll r) = m_contract_id r"
  "m_year (with_log_enroll r) = m_year r"
  "m_stars (with_log_enroll r) = m_stars r"
  "m_poverty_exposure (with_log_enroll r) = m_poverty_exposure r"
  "m_rural_exposure (with_log_enroll r) = m_rural_exposure r"
  "m_hpsa_exposure (with_log_enroll r) = m_hpsa_exposure r"
  "m_hhi (with_log_enroll r) = m_hhi r"
  "m_entropy (with_log_enroll r) = m_entropy r"
  "m_top1_share (with_log_enroll r) = m_top1_share r"
  "m_top5_share (with_log_enroll r) = m_top5_share r"
  "m_n_counties (with_log_enroll r) = m_n_counties r"
  "m_total_enrollment (with_log_enroll r) = Some (fillna_clip (m_total_enrollment r))"
  "log_enroll (with_log_enroll r) = Some (ln (fillna_clip (m_total_enrollment r)))"
  by (simp_all add: with_log_enroll_def model_frame_row.defs)
















lemma set_map_filter: "set (List.map_filter f xs) = {y. \<exists>x \<in> set xs. f x = Some y}"
  by (induction xs) (auto split: option.splits)


lemma decomposition_row_fields:
  "m_stars (decomposition_row_of beta th levels (r, s, x)) = m_stars r"
  "m_contract_id (decomposition_row_of beta th levels (r, s, x)) = m_contract_id r"
  "m_year (decomposition_row_of beta th levels (r, s, x)) = m_year r"
  "m_total_enrollment (decomposition_row_of beta th levels (r, s, x)) = m_total_enrollment r"
  "log_enroll (decomposition_row_of beta th levels (r, s, x)) = log_enroll r"
  "expected_stars_structural (decomposition_row_of beta th levels (r, s, x))
     = expected_stars (predict beta th x) levels"
  "operational_residual (decomposition_row_of beta th levels (r, s, x))
     = s - expected_stars (predict beta th x) levels"
  by (simp_all add: decomposition_row_of_def fit_frame_row.defs)

lemma modeled_row_stars: "modeled_row years r = Some (r', s, x) \<Longrightarrow> r' = r \<and> m_stars r = Some s"
  by (auto simp: modeled_row_def split: option.splits)











section \<open>Properties of the assembled frame\<close>

lemma left_join_Some:
  "(x, Some y) \<in> set (left_join on_cond xs ys) \<Longrightarrow> x \<in> set xs \<and> y \<in> set ys \<and> on_cond x y"
  by (auto simp: left_join_def split: if_splits)

lemma left_join_None:
  "(x, None) \<in> set (left_join on_cond xs ys) \<Longrightarrow> x \<in> set xs \<and> filter (on_cond x) ys = []"
  by (auto simp: left_join_def split: if_splits)

lemma geo_keys:
  assumes "g \<in> set (contract_year_geo_concentration ws)"
  shows "(g_contract_id g, g_contract_year g) \<in> set (map (\<lambda>w. (w_contract_id w, w_year w)) ws)"
  using assms by (auto simp: contract_year_geo_concentration_def geo_row_def geo_w_def)

lemma enrollment_rows:
  assumes "(c, y) \<in> set (map (\<lambda>w. (w_contract_id w, w_year w)) ws)"
  shows "\<exists>e \<in> set (contract_year_enrollment ws). en_contract_id e = c \<and> en_contract_year e = y"
proof -
  let ?e = "\<lparr> en_contract_id = c, en_contract_year = y,
               en_total_enrollment =
                 sql_max (map (\<lambda>w. real_of_int (contract_year_total_enrollment w))
                              (weight_group ws c y)) \<rparr>"
  have "?e \<in> set (contract_year_enrollment ws)"
    unfolding contract_year_enrollment_def set_map set_remdups
    by (rule image_eqI[where x = "(c, y)"]) (use assms in simp_all)
  then show ?thesis by (intro bexI[of _ ?e]) simp_all
qed

lemma enrollment_total_present:
  assumes "e \<in> set (contract_year_enrollment ws)"
  shows "en_total_enrollment e \<noteq> None"
proof -
  from assms obtain w where w: "w \<in> set ws"
    and e: "e = \<lparr> en_contract_id = w_contract_id w, en_contract_year = w_year w,
                   en_total_enrollment =
                     sql_max (map (\<lambda>w. real_of_int (contract_year_total_enrollment w))
                                  (weight_group ws (w_contract_id w) (w_year w))) \<rparr>"
    by (auto simp: contract_year_enrollment_def)
  have "w \<in> set (weight_group ws (w_contract_id w) (w_year w))"
    using w by (simp add: weight_group_def)
  then have "map (\<lambda>w. real_of_int (contract_year_total_enrollment w))
               (weight_group ws (w_contract_id w) (w_year w)) \<noteq> []"
    by auto
  then have "sql_max (map (\<lambda>w. real_of_int (contract_year_total_enrollment w))
               (weight_group ws (w_contract_id w) (w_year w)))
      = Some (Max (set (map (\<lambda>w. real_of_int (contract_year_total_enrollment w))
               (weight_group ws (w_contract_id w) (w_year w)))))"
    by (rule sql_max_Max)
  then show ?thesis by (simp add: e)
qed

lemma frame_enrollment_with_geo:
  assumes r: "r \<in> set (model_frame stars pov rural hpsa (contract_year_geo_concentration ws)
                         (contract_year_enrollment ws))"
    and g: "m_hhi r \<noteq> None"
  shows "m_total_enrollment r \<noteq> None"
proof -
  from r obtain x where x: "x \<in> set
       (left_join (\<lambda>x e. s_contract_id (fst (fst (fst (fst x)))) = en_contract_id e
                          \<and> s_contract_year (fst (fst (fst (fst x)))) = en_contract_year e)
          (left_join (\<lambda>x g. s_contract_id (fst (fst (fst x))) = g_contract_id g
                             \<and> s_contract_year (fst (fst (fst x))) = g_contract_year g)
             (left_join (\<lambda>x h. s_contract_id (fst (fst x)) = he_contract_id h
                                \<and> s_contract_year (fst (fst x)) = he_contract_year h)
                (left_join (\<lambda>x r. s_contract_id (fst x) = e_contract_id r
                                   \<and> s_contract_year (fst x) = e_contract_year r)
                   (left_join (\<lambda>s p. s_contract_id s = e_contract_id p
                                      \<and> s_contract_year s = e_contract_year p)
                      (frame_s stars) pov)
                   rural)
                hpsa)
             (contract_year_geo_concentration ws))
          (contract_year_enrollment ws))"
    and rx: "r = frame_row x"
    by (auto simp: model_frame_def)
  obtain s p rr h go eo where xe: "x = (((((s, p), rr), h), go), eo)"
    by (cases x) auto
  from g obtain g' where go: "go = Some g'"
    by (cases go) (auto simp: rx xe frame_row_def)
  have x4: "((((s, p), rr), h), Some g') \<in> set
          (left_join (\<lambda>x g. s_contract_id (fst (fst (fst x))) = g_contract_id g
                             \<and> s_contract_year (fst (fst (fst x))) = g_contract_year g)
             (left_join (\<lambda>x h. s_contract_id (fst (fst x)) = he_contract_id h
                                \<and> s_contract_year (fst (fst x)) = he_contract_year h)
                (left_join (\<lambda>x r. s_contract_id (fst x) = e_contract_id r
                                   \<and> s_contract_year (fst x) = e_contract_year r)
                   (left_join (\<lambda>s p. s_contract_id s = e_contract_id p
                                      \<and> s_contract_year s = e_contract_year p)
                      (frame_s stars) pov)
                   rural)
                hpsa)
             (contract_year_geo_concentration ws))"
    using fst_left_join[OF x] by (simp add: xe go)
  from left_join_Some[OF x4]
  have g': "g' \<in> set (contract_year_geo_concentration ws)"
    and k: "s_contract_id s = g_contract_id g'" "s_contract_year s = g_contract_year g'"
    by simp_all
  have "(s_contract_id s, s_contract_year s) \<in> set (map (\<lambda>w. (w_contract_id w, w_year w)) ws)"
    using geo_keys[OF g'] k by simp
  then obtain e where e: "e \<in> set (contract_year_enrollment ws)"
    "en_contract_id e = s_contract_id s" "en_contract_year e = s_contract_year s"
    using enrollment_rows by blast
  show ?thesis
  proof (cases eo)
    case None
    from left_join_None[OF x[unfolded xe None]]
    have "filter (\<lambda>e. s_contract_id s = en_contract_id e \<and> s_contract_year s = en_contract_year e)
            (contract_year_enrollment ws) = []"
      by simp
    then show ?thesis using e by (auto simp: filter_empty_conv)
  next
    case (Some e')
    from left_join_Some[OF x[unfolded xe Some]]
    have "e' \<in> set (contract_year_enrollment ws)" by simp
    then show ?thesis
      using enrollment_total_present by (simp add: rx xe Some frame_row_def)
  qed
qed


lemma example_weights3:
  "contract_county_weights example_enrollment3 =
     [\<lparr>w_contract_id = ''A'', w_year = 2024, w_county_fips = ''06001'', w_enrollment = 80,
         contract_year_total_enrollment = 100, w_enroll = 8 / 10\<rparr>,
      \<lparr>w_contract_id = ''A'', w_year = 2024, w_county_fips = ''06003'', w_enrollment = 20,
         contract_year_total_enrollment = 100, w_enroll = 2 / 10\<rparr>,
      \<lparr>w_contract_id = ''B'', w_year = 2024, w_county_fips = ''06001'', w_enrollment = 50,
         contract_year_total_enrollment = 50, w_enroll = 1\<rparr>,
      \<lparr>w_contract_id = ''C'', w_year = 2024, w_county_fips = ''06003'', w_enrollment = 10,
         contract_year_total_enrollment = 10, w_enroll = 1\<rparr>]"
  by (simp add: example_enrollment3_def contract_county_weights_def retained_def weight_row_def
        partition_total_def enrollment_value_def)

lemma example_poverty3:
  "contract_year_poverty_exposure_clean (contract_county_weights example_enrollment3) example_poverty_full =
     [\<lparr>e_contract_id = ''A'', e_contract_year = 2024, total_enrollment = Some 100,
         exposure = Some (14 / 100), coverage_weight_share = 1, out_of_scope_geography = 0\<rparr>,
      \<lparr>e_contract_id = ''B'', e_contract_year = 2024, total_enrollment = Some 50,
         exposure = Some (10 / 100), coverage_weight_share = 1, out_of_scope_geography = 0\<rparr>,
      \<lparr>e_contract_id = ''C'', e_contract_year = 2024, total_enrollment = Some 10,
         exposure = Some (30 / 100), coverage_weight_share = 1, out_of_scope_geography = 0\<rparr>]"
  by (simp add: example_weights3 example_poverty_full_def contract_year_poverty_exposure_clean_def
        renormalized_exposure_def poverty_joined_def left_join_def poverty_on_def joined_of_def
        j_key_def exposure_row_def num_def denom_def)

lemma example_rural3:
  "contract_year_rural_exposure (contract_county_weights example_enrollment3) example_rucc_full =
     [\<lparr>e_contract_id = ''A'', e_contract_year = 2024, total_enrollment = Some 100,
         exposure = Some (2 / 10), coverage_weight_share = 1, out_of_scope_geography = 0\<rparr>,
      \<lparr>e_contract_id = ''B'', e_contract_year = 2024, total_enrollment = Some 50,
         exposure = Some 0, coverage_weight_share = 1, out_of_scope_geography = 0\<rparr>,
      \<lparr>e_contract_id = ''C'', e_contract_year = 2024, total_enrollment = Some 10,
         exposure = Some 1, coverage_weight_share = 1, out_of_scope_geography = 0\<rparr>]"
  by (simp add: example_weights3 example_rucc_full_def contract_year_rural_exposure_def
        renormalized_exposure_def rural_joined_def left_join_def rural_on_def joined_of_def
        j_key_def exposure_row_def num_def denom_def)

lemma example_hpsa3:
  "contract_year_hpsa_exposure (contract_county_weights example_enrollment3) example_hpsa =
     [\<lparr>he_contract_id = ''A'', he_contract_year = 2024, hpsa_exposure = 8,
         hpsa_designated_weight_share = 8 / 10, counties_total = 2, counties_designated = 1\<rparr>,
      \<lparr>he_contract_id = ''B'', he_contract_year = 2024, hpsa_exposure = 10,
         hpsa_designated_weight_share = 1, counties_total = 1, counties_designated = 1\<rparr>,
      \<lparr>he_contract_id = ''C'', he_contract_year = 2024, hpsa_exposure = 0,
         hpsa_designated_weight_share = 0, counties_total = 1, counties_designated = 0\<rparr>]"
  by (simp add: example_weights3 example_hpsa_def contract_year_hpsa_exposure_def hpsa_j_def
        hpsa_w_def hpsa_h_def left_join_def hpsa_on_def hpsa_j_row_def hj_key_def hpsa_row_def)

lemma example_geo3:
  "contract_year_geo_concentration (contract_county_weights example_enrollment3) =
     [geo_row (''A'', 2024) [8 / 10, 2 / 10], geo_row (''B'', 2024) [1], geo_row (''C'', 2024) [1]]"
  by (simp add: example_weights3 contract_year_geo_concentration_def geo_w_def weight_group_def)

lemma example_enroll3:
  "contract_year_enrollment (contract_county_weights example_enrollment3) =
     [\<lparr>en_contract_id = ''A'', en_contract_year = 2024, en_total_enrollment = Some 100\<rparr>,
      \<lparr>en_contract_id = ''B'', en_contract_year = 2024, en_total_enrollment = Some 50\<rparr>,
      \<lparr>en_contract_id = ''C'', en_contract_year = 2024, en_total_enrollment = Some 10\<rparr>]"
  by (simp add: example_weights3 contract_year_enrollment_def weight_group_def)

lemma geo_row_key:
  "g_contract_id (geo_row k g) = fst k" "g_contract_year (geo_row k g) = snd k"
  by (simp_all add: geo_row_def)

lemma notna_iff: "notna v = (v \<noteq> None)"
  by (cases v) simp_all

lemma core_with_log_enroll: "core (with_log_enroll r) = core r"
  by (simp add: core_def with_log_enroll_fields)

lemma core_decomposition_row: "core (decomposition_row_of beta th levels (r, s, x)) = core r"
  by (simp add: core_def decomposition_row_of_def fit_frame_row.defs)

lemma kept_rows_complete:
  assumes b: "build_model_frame stars pov rural hpsa ws = Inr df"
    and r: "r \<in> set (dropna_core df)"
  shows "\<not> missing_required r"
proof -
  have df: "df = model_frame stars pov rural hpsa (contract_year_geo_concentration ws)
                   (contract_year_enrollment ws)"
    using b by (auto simp: build_model_frame_def Let_def split: if_splits)
  have rdf: "r \<in> set df" and c: "list_all notna (core r)"
    using r by (simp_all add: dropna_core_def)
  have "m_hhi r \<noteq> None" using c by (simp add: core_def notna_iff)
  then have "m_total_enrollment r \<noteq> None"
    using frame_enrollment_with_geo rdf unfolding df by blast
  then show ?thesis
    using c by (simp add: missing_required_def required_features_def core_def notna_iff)
qed

text \<open>
  C6. In a run of the pipeline (the weight table written by 05\_build\_weights.py, any
  stars and exposure tables) that reaches the model frame: every row of the frame that is
  missing an exposure variant, a concentration metric or the total enrollment is dropped by
  \<open>dropna\<close>; every row of the frame the model is fitted on comes from a frame row that
  misses none of them; and so does every row of the decomposition, when it is produced.
\<close>

theorem missing_feature_rows_dropped:
  assumes b: "build_model_frame stars pov rural hpsa (contract_county_weights enr) = Inr df"
  shows "(\<forall>r \<in> set df. missing_required r \<longrightarrow> r \<notin> set (dropna_core df))
       \<and> (\<forall>f \<in> set (fit_frame df). \<exists>r \<in> set df. f = with_log_enroll r \<and> \<not> missing_required r)
       \<and> (\<forall>beta th out. structural_decomposition beta th df = Inr out \<longrightarrow>
            (\<forall>d \<in> set out. \<exists>r \<in> set df. \<not> missing_required r
                \<and> m_contract_id d = m_contract_id r \<and> m_year d = m_year r \<and> core d = core r))"
proof -
  have 1: "\<forall>r \<in> set df. missing_required r \<longrightarrow> r \<notin> set (dropna_core df)"
    using kept_rows_complete[OF b] by blast
  have 2: "\<exists>r \<in> set df. f = with_log_enroll r \<and> \<not> missing_required r"
    if "f \<in> set (fit_frame df)" for f
  proof -
    from that obtain r where r: "r \<in> set (dropna_core df)" and f: "f = with_log_enroll r"
      by (auto simp: fit_frame_def)
    have "r \<in> set df" using r by (simp add: dropna_core_def)
    then show ?thesis using f kept_rows_complete[OF b r] by blast
  qed
  have 3: "\<exists>r \<in> set df. \<not> missing_required r
                \<and> m_contract_id d = m_contract_id r \<and> m_year d = m_year r \<and> core d = core r"
    if out: "structural_decomposition beta th df = Inr out" and d: "d \<in> set out" for beta th out d
  proof -
    let ?fd = "fit_frame df"
    have o: "out = map (decomposition_row_of beta th (star_levels ?fd)) (modeled_rows (year_dummies ?fd) ?fd)"
      using out by (auto simp: structural_decomposition_def Let_def split: if_splits)
    from d o obtain f s x where m: "(f, s, x) \<in> set (modeled_rows (year_dummies ?fd) ?fd)"
      and dr: "d = decomposition_row_of beta th (star_levels ?fd) (f, s, x)" by auto
    from m obtain f0 where f0: "f0 \<in> set ?fd" "modeled_row (year_dummies ?fd) f0 = Some (f, s, x)"
      by (auto simp: modeled_rows_def set_map_filter)
    then have "f \<in> set ?fd" using modeled_row_stars[OF f0(2)] by simp
    then obtain r where r: "r \<in> set df" "f = with_log_enroll r" "\<not> missing_required r"
      using 2 by blast
    show ?thesis
      by (rule bexI[OF _ r(1)])
         (simp add: r dr decomposition_row_fields core_decomposition_row with_log_enroll_fields
            core_with_log_enroll)
  qed
  show ?thesis using 1 2 3 by blast
qed

lemma example_frame_rows: "example_run_frame = Inr (map frame_row example_joined)"
proof -
  show ?thesis
    unfolding example_run_frame_def build_model_frame_def Let_def example_geo3 example_enroll3
      example_poverty3 example_rural3 example_hpsa3 example_joined_def
    by (simp add: model_frame_def left_join_def frame_s_def example_stars3_def geo_row_key)
qed

lemma example_geo_values:
  "hhi (geo_row k [4 / 5, 1 / 5]) = 17 / 25"
  "top1_share (geo_row k [4 / 5, 1 / 5]) = Some (4 / 5)"
  "top5_share (geo_row k [4 / 5, 1 / 5]) = 1"
  "n_counties (geo_row k [4 / 5, 1 / 5]) = 2"
  "hhi (geo_row k [1]) = 1"
  "top1_share (geo_row k [1]) = Some 1"
  "top5_share (geo_row k [1]) = 1"
  "n_counties (geo_row k [1]) = 1"
  by (simp_all add: geo_row_def ranked_def)

lemma example_frame_values:
  "map (\<lambda>r. (m_contract_id r, m_stars r, m_poverty_exposure r, m_rural_exposure r, m_hpsa_exposure r,
              m_hhi r, m_top1_share r, m_top5_share r, m_n_counties r, m_total_enrollment r))
     (map frame_row example_joined)
   = [(''A'', Some 4, Some (14 / 100), Some (2 / 10), Some 8, Some (68 / 100), Some (8 / 10), Some 1,
       Some 2, Some 100),
      (''B'', Some 3, Some (10 / 100), Some 0, Some 10, Some 1, Some 1, Some 1, Some 1, Some 50),
      (''C'', Some 5, Some (30 / 100), Some 1, Some 0, Some 1, Some 1, Some 1, Some 1, Some 10),
      (''D'', Some (35 / 10), None, None, None, None, None, None, None, None)]"
  by (simp add: example_joined_def frame_row_def example_geo_values)


lemma example_frame_kept:
  "map m_contract_id (filter missing_required (map frame_row example_joined)) = [''D'']"
  "map m_contract_id (dropna_core (map frame_row example_joined)) = [''A'', ''B'', ''C'']"
  by (simp_all add: example_joined_def frame_row_def missing_required_def required_features_def
        dropna_core_def core_def example_geo_values)

lemma example_frame_fit:
  "fit_frame (map frame_row example_joined) =
     map with_log_enroll (take 3 (map frame_row example_joined))"
  by (simp add: fit_frame_def example_joined_def frame_row_def dropna_core_def core_def
        example_geo_values)

lemma example_frame_decomposition:
  "\<exists>out. structural_decomposition [] [0, 0] (map frame_row example_joined) = Inr out
      \<and> map m_contract_id out = [''A'', ''B'', ''C'']"
proof -
  let ?df = "map frame_row example_joined"
  have ne: "?df \<noteq> []" by (simp add: example_joined_def)
  have fe: "fit_frame ?df \<noteq> []"
    unfolding example_frame_fit by (simp add: example_joined_def)
  have lv: "star_levels (fit_frame ?df) = [3, 4, 5]"
    unfolding example_frame_fit
    by (simp add: star_levels_def example_joined_def frame_row_def with_log_enroll_fields)
  have o: "structural_decomposition [] [0, 0] ?df =
             Inr (map (decomposition_row_of [] [0, 0] [3, 4, 5])
                    (modeled_rows (year_dummies (fit_frame ?df)) (fit_frame ?df)))"
    using ne fe by (simp add: structural_decomposition_def Let_def lv)
  have k: "map m_contract_id (map (decomposition_row_of [] [0, 0] [3, 4, 5])
                    (modeled_rows (year_dummies (fit_frame ?df)) (fit_frame ?df)))
             = [''A'', ''B'', ''C'']"
    unfolding example_frame_fit
    by (simp add: year_dummies_def modeled_rows_def modeled_row_def X_cols_def
          example_joined_def frame_row_def with_log_enroll_fields decomposition_row_fields
          example_geo_values)
  show ?thesis by (rule exI, rule conjI, rule o, rule k)
qed

theorem missing_feature_rows_dropped_witness:
  "example_run_frame = Inr (map frame_row example_joined)
   \<and> map (\<lambda>r. (m_contract_id r, m_stars r, m_poverty_exposure r, m_rural_exposure r, m_hpsa_exposure r,
              m_hhi r, m_top1_share r, m_top5_share r, m_n_counties r, m_total_enrollment r))
       (map frame_row example_joined)
     = [(''A'', Some 4, Some (14 / 100), Some (2 / 10), Some 8, Some (68 / 100), Some (8 / 10), Some 1,
         Some 2, Some 100),
        (''B'', Some 3, Some (10 / 100), Some 0, Some 10, Some 1, Some 1, Some 1, Some 1, Some 50),
        (''C'', Some 5, Some (30 / 100), Some 1, Some 0, Some 1, Some 1, Some 1, Some 1, Some 10),
        (''D'', Some (35 / 10), None, None, None, None, None, None, None, None)]
   \<and> map m_contract_id (filter missing_required (map frame_row example_joined)) = [''D'']
   \<and> map m_contract_id (dropna_core (map frame_row example_joined)) = [''A'', ''B'', ''C'']
   \<and> filter missing_required (dropna_core (map frame_row example_joined)) = []
   \<and> (\<exists>out. structural_decomposition [] [0, 0] (map frame_row example_joined) = Inr out
          \<and> map m_contract_id out = [''A'', ''B'', ''C''])"
proof -
  let ?df = "map frame_row example_joined"
  note b = example_frame_rows[unfolded example_run_frame_def]
  from missing_feature_rows_dropped[OF b]
  have "\<forall>r \<in> set ?df. missing_required r \<longrightarrow> r \<notin> set (dropna_core ?df)"
    by blast
  moreover have "set (dropna_core ?df) \<subseteq> set ?df"
    by (auto simp: dropna_core_def)
  ultimately have "\<forall>r \<in> set (dropna_core ?df). \<not> missing_required r"
    by blast
  then have f: "filter missing_required (dropna_core ?df) = []"
    by (simp only: filter_empty_conv)
  show ?thesis
    using example_frame_rows example_frame_values example_frame_kept f example_frame_decomposition
    by (intro conjI)
qed

section \<open>Properties of the bootstrap\<close>







lemma nt_fields:
  "b_contract_id (nt_row c s p e) = c"
  "b_contract_year (nt_row c s p e) = 2024"
  "poverty_exposure (nt_row c s p e) = Some p"
  "b_total_enrollment (nt_row c s p e) = Some e"
  "above_4star (nt_row c s p e) = (if s \<ge> 4 then 1 else 0)"
  "threshold_band (nt_row c s p e) =
     (if s \<ge> 35 / 10 \<and> s < 4 then ''3.5-3.9''
      else if s \<ge> 4 \<and> s \<le> 45 / 10 then ''4.0-4.5'' else ''other'')"
  by (simp_all add: nt_row_def near_threshold_row_def analysis_base.defs)

lemma example_stats_df:
  "stats_df example_near_threshold =
     [\<lparr>t_contract_id = ''H1'', t_contract_year = 2024, t_threshold_band = ''3.5-3.9'', t_above_4star = 0,
         t_poverty_exposure = Some (10 / 100), t_total_enrollment = Some 100\<rparr>,
      \<lparr>t_contract_id = ''H2'', t_contract_year = 2024, t_threshold_band = ''3.5-3.9'', t_above_4star = 0,
         t_poverty_exposure = Some (12 / 100), t_total_enrollment = Some 200\<rparr>,
      \<lparr>t_contract_id = ''H3'', t_contract_year = 2024, t_threshold_band = ''3.5-3.9'', t_above_4star = 0,
         t_poverty_exposure = Some (14 / 100), t_total_enrollment = Some 300\<rparr>,
      \<lparr>t_contract_id = ''H4'', t_contract_year = 2024, t_threshold_band = ''3.5-3.9'', t_above_4star = 0,
         t_poverty_exposure = Some (16 / 100), t_total_enrollment = Some 400\<rparr>,
      \<lparr>t_contract_id = ''H5'', t_contract_year = 2024, t_threshold_band = ''3.5-3.9'', t_above_4star = 0,
         t_poverty_exposure = Some (18 / 100), t_total_enrollment = Some 500\<rparr>,
      \<lparr>t_contract_id = ''K1'', t_contract_year = 2024, t_threshold_band = ''4.0-4.5'', t_above_4star = 1,
         t_poverty_exposure = Some (8 / 100), t_total_enrollment = Some 100\<rparr>,
      \<lparr>t_contract_id = ''K2'', t_contract_year = 2024, t_threshold_band = ''4.0-4.5'', t_above_4star = 1,
         t_poverty_exposure = Some (9 / 100), t_total_enrollment = Some 100\<rparr>,
      \<lparr>t_contract_id = ''K3'', t_contract_year = 2024, t_threshold_band = ''4.0-4.5'', t_above_4star = 1,
         t_poverty_exposure = Some (10 / 100), t_total_enrollment = Some 100\<rparr>,
      \<lparr>t_contract_id = ''K4'', t_contract_year = 2024, t_threshold_band = ''4.0-4.5'', t_above_4star = 1,
         t_poverty_exposure = Some (11 / 100), t_total_enrollment = Some 100\<rparr>,
      \<lparr>t_contract_id = ''K5'', t_contract_year = 2024, t_threshold_band = ''4.0-4.5'', t_above_4star = 1,
         t_poverty_exposure = Some (12 / 100), t_total_enrollment = Some 100\<rparr>]"
  by (simp add: stats_df_def example_near_threshold_def nt_fields)


lemma length_5: "length [a, b, c, d, e] = 5"
  by simp

lemma choice_5:
  "choice integers [a, b, c, d, e] 5 g =
     (case integers g 5 of (i1, g1) \<Rightarrow>
      case integers g1 5 of (i2, g2) \<Rightarrow>
      case integers g2 5 of (i3, g3) \<Rightarrow>
      case integers g3 5 of (i4, g4) \<Rightarrow>
      case integers g4 5 of (i5, g5) \<Rightarrow>
        ([[a, b, c, d, e] ! (i1 mod 5), [a, b, c, d, e] ! (i2 mod 5), [a, b, c, d, e] ! (i3 mod 5),
          [a, b, c, d, e] ! (i4 mod 5), [a, b, c, d, e] ! (i5 mod 5)], g5))"
proof -
  have l: "length [a, b, c, d, e] = 5" by simp
  have n: "(5::nat) = Suc (Suc (Suc (Suc (Suc 0))))" by simp
  show ?thesis
    unfolding n choice.simps unfolding l n[symmetric]
    by (simp split: prod.splits)
qed

lemma one_draw_5:
  "one_draw integers [a, b, c, d, e] [a', b', c', d', e'] g =
     (case choice integers [a, b, c, d, e] 5 g of
        (samp_a, g1) \<Rightarrow>
          (case choice integers [a', b', c', d', e'] 5 g1 of
             (samp_b, g2) \<Rightarrow> ((samp_a, samp_b), g2)))"
  unfolding one_draw_def length_5 by (rule refl)



lemma resample_draws_2:
  "resample_draws integers ids_a ids_b 2 g =
     [fst (one_draw integers ids_a ids_b g),
      fst (one_draw integers ids_a ids_b (snd (one_draw integers ids_a ids_b g)))]"
  by (simp add: resample_draws_def state_after_def numeral_2_eq_2)






text \<open>The data frame enters with its row order: \<open>unique()\<close> lists the contracts of
  a band in order of first appearance and a draw is an index into that list, so the same
  rows in reverse order give other draws.\<close>

lemma bootstrap_reads_row_order:
  "resample_plan toy_integers 2 (band_ids (rev (stats_df example_near_threshold))) 42 =
     [(2024, [''H3'', ''H2'', ''H5'', ''H1'', ''H4''], [''K5'', ''K4'', ''K1'', ''K4'', ''K4'']),
      (2024, [''H5'', ''H4'', ''H5'', ''H5'', ''H1''], [''K1'', ''K5'', ''K5'', ''K3'', ''K1''])]"
proof -
  have b: "band_ids (rev (stats_df example_near_threshold)) =
     [(2024, [''H5'', ''H4'', ''H3'', ''H2'', ''H1''], [''K5'', ''K4'', ''K3'', ''K2'', ''K1''])]"
    by (simp add: example_stats_df band_ids_def band_rows_def unique_def)
  have d1: "one_draw toy_integers [''H5'', ''H4'', ''H3'', ''H2'', ''H1''] [''K5'', ''K4'', ''K3'', ''K2'', ''K1''] 42 =
     (([''H3'', ''H2'', ''H5'', ''H1'', ''H4''], [''K5'', ''K4'', ''K1'', ''K4'', ''K4'']), 85)"
    by (simp add: one_draw_5 choice_5 toy_integers_def)
  have d2: "one_draw toy_integers [''H5'', ''H4'', ''H3'', ''H2'', ''H1''] [''K5'', ''K4'', ''K3'', ''K2'', ''K1''] 85 =
     (([''H5'', ''H4'', ''H5'', ''H5'', ''H1''], [''K1'', ''K5'', ''K5'', ''K3'', ''K1'']), 89)"
    by (simp add: one_draw_5 choice_5 toy_integers_def)
  show ?thesis
    unfolding b by (simp add: resample_draws_2 d1 d2)
qed



end
